theory Spec2Isabelle
  imports Complex_Main "HOL-Library.AList" "HOL-Library.Sublist"
begin

section \<open>Values, errors and strings\<close>

text \<open>
  The service under study is \<open>FitnessBackendService\<close>: a singleton that talks to an
  exercise-analysis backend, with a retry loop, an offline request queue, a time-limited
  configuration cache and synthetic fallback data.

  TypeScript's types are erased at run time, so every payload is a JavaScript value.
  Numbers are modelled as reals (the source's doubles, without rounding); an object is
  the list of its own properties in insertion order. \<open>JInherited k\<close> stands for the member
  \<open>k\<close> that an object literal inherits from \<open>Object.prototype\<close> (a function, or the
  prototype itself): a lookup \<open>table[key]\<close> with such a key finds it.
\<close>

datatype JsVal =
    JUndefined
  | JNull
  | JBool bool
  | JNum real
  | JStr string
  | JArr "JsVal list"
  | JObj "(string \<times> JsVal) list"
  | JInherited string

type_synonym JsObject = "(string \<times> JsVal) list"

text \<open>What a \<open>throw\<close> carries: an \<open>Error\<close> with its message, or \<open>undefined\<close> (the retry
  loop throws its never-assigned \<open>lastError\<close> when the loop body did not run).\<close>

datatype Thrown = Error string | Undefined

fun truthy :: "JsVal \<Rightarrow> bool" where
  "truthy JUndefined = False"
| "truthy JNull = False"
| "truthy (JBool b) = b"
| "truthy (JNum x) = (x \<noteq> 0)"
| "truthy (JStr s) = (s \<noteq> [])"
| "truthy (JArr xs) = True"
| "truthy (JObj kvs) = True"
| "truthy (JInherited k) = True"

text \<open>\<open>typeof v === 'object'\<close>.\<close>

fun typeofObject :: "JsVal \<Rightarrow> bool" where
  "typeofObject JNull = True"
| "typeofObject (JArr xs) = True"
| "typeofObject (JObj kvs) = True"
| "typeofObject (JInherited k) = (k = ''__proto__'')"
| "typeofObject v = False"

text \<open>Strings are byte strings; \<open>toLowerCase\<close> is modelled on the ASCII letters.\<close>

definition lowerChar :: "char \<Rightarrow> char" where
  "lowerChar c =
     (case map_of (zip ''ABCDEFGHIJKLMNOPQRSTUVWXYZ'' ''abcdefghijklmnopqrstuvwxyz'') c of
        Some d \<Rightarrow> d
      | None \<Rightarrow> c)"

definition toLowerCase :: "string \<Rightarrow> string" where
  "toLowerCase s = map lowerChar s"

fun startsWith :: "string \<Rightarrow> string \<Rightarrow> bool" where
  "startsWith s [] = True"
| "startsWith [] (p # ps) = False"
| "startsWith (c # cs) (p # ps) = (c = p \<and> startsWith cs ps)"

text \<open>\<open>s.includes(p)\<close>: \<open>p\<close> occurs in \<open>s\<close> as a contiguous substring.\<close>

fun strIncludes :: "string \<Rightarrow> string \<Rightarrow> bool" where
  "strIncludes [] p = (p = [])"
| "strIncludes (c # cs) p = (startsWith (c # cs) p \<or> strIncludes cs p)"

text \<open>Decimal rendering of an integer, as a template literal does it.\<close>

fun decimal :: "nat \<Rightarrow> string" where
  "decimal n =
     (if n < 10 then [''0123456789'' ! n]
      else decimal (n div 10) @ [''0123456789'' ! (n mod 10)])"

declare decimal.simps [simp del]

definition numberToString :: "int \<Rightarrow> string" where
  "numberToString i = (if i < 0 then CHR ''-'' # decimal (nat (- i)) else decimal (nat i))"


section \<open>The service's data\<close>

record NetworkStatus =
  isConnected :: bool
  netType :: "string option"
  isInternetReachable :: "bool option"

record RetryConfig =
  maxRetries :: int
  baseDelay :: real
  maxDelay :: real
  backoffFactor :: real

record SessionData =
  sessionExerciseType :: string
  duration :: real
  totalReps :: real
  averageAccuracy :: real
  userId :: string

text \<open>
  \<open>QueuedRequest.type\<close> and \<open>QueuedRequest.data\<close>: every call of \<open>queueRequest\<close> pairs the
  type with the data of that type, so the pair is one tagged value.
\<close>

datatype RequestType = Video | Frame | Config | Summary

datatype RequestData =
    VideoData string string
  | FrameData string string
  | ConfigData string
  | SummaryData SessionData

fun requestType :: "RequestData \<Rightarrow> RequestType" where
  "requestType (VideoData videoPath exerciseType) = Video"
| "requestType (FrameData frameData exerciseType) = Frame"
| "requestType (ConfigData exerciseType) = Config"
| "requestType (SummaryData sessionData) = Summary"

fun typeName :: "RequestType \<Rightarrow> string" where
  "typeName Video = ''video''"
| "typeName Frame = ''frame''"
| "typeName Config = ''config''"
| "typeName Summary = ''summary''"

record QueuedRequest =
  requestId :: string
  requestData :: RequestData
  queuedAt :: int
  retryCount :: nat

record CacheEntry =
  cachedData :: JsObject
  cachedAt :: int
  expiresAt :: int


section \<open>The environment\<close>

text \<open>
  One network exchange (a \<open>fetch\<close> or an \<open>XMLHttpRequest\<close>), as the environment decides
  it. A reply carries its status, its status text and what reading its body gives:
  \<^item> \<open>JsonFails m\<close>: parsing the body throws an error with message \<open>m\<close>;
  \<^item> \<open>Invalid raw m\<close>: the body parses to \<open>raw\<close>, and the endpoint's decoding
    (\<open>transformExerciseConfig\<close>, \<open>parseApiResponse\<close> with the endpoint's validator,
    \<open>transformKeypoints\<close>) throws an error with message \<open>m\<close>;
  \<^item> \<open>Valid raw obj\<close>: the body parses to \<open>raw\<close>, and that decoding returns the object
    \<open>obj\<close> (every validator accepts only a non-null object that has the required
    fields, so a decoded value is an object).
  The decoding is a function of the body alone and no operation below depends on how it
  decides, so a reply carries its result; every reply may carry any of the three, and
  what is proved below holds for all of them. \<open>connectionLost\<close>: the platform reported the
  loss of connectivity while the exchange was under way (the NetInfo listener ran with
  a disconnected state; it starts no queue processing on a loss).
\<close>

datatype Body =
    JsonFails string
  | Invalid JsVal string
  | Valid JsVal JsObject

datatype NetOutcome =
    TransportError string
  | TransportTimeout string
  | Replied nat string Body

record Exchange =
  outcome :: NetOutcome
  elapsed :: nat
  connectionLost :: bool

text \<open>What an observer of the service sees, in order.\<close>

datatype Event =
    NetworkCall string string
  | BackoffWait real
  | ReplayStart string

text \<open>
  The fields of the singleton, followed by the platform it runs on: the clock read by
  \<open>Date.now()\<close>, the exchanges the network will answer with (the \<open>n\<close>-th network call
  gets \<open>exchanges n\<close>), the numbers \<open>Math.random()\<close> will return, \<open>Math.sin\<close>,
  \<open>Math.PI\<close>, \<open>Number.prototype.toString(36)\<close> and \<open>Date.prototype.toISOString\<close>; then
  the observations: the trace of events and the number of pending
  \<open>setTimeout(() => this.processRequestQueue(), 5000)\<close> timers.

  Operations run one at a time, each to its end: what other calls could do while one
  call waits for the network or for a timer is not modelled, apart from the loss of
  connectivity during an exchange.
\<close>

record World =
  baseUrl :: "string option"
  authToken :: "string option"
  isInitialized :: bool
  requestQueue :: "QueuedRequest list"
  isProcessingQueue :: bool
  networkStatus :: NetworkStatus
  retryConfig :: RetryConfig
  configCache :: "(string \<times> CacheEntry) list"
  clock :: int
  exchanges :: "nat \<Rightarrow> Exchange"
  netCalls :: nat
  randoms :: "nat \<Rightarrow> real"
  randomDraws :: nat
  mathSin :: "real \<Rightarrow> real"
  mathPI :: real
  toString36 :: "real \<Rightarrow> string"
  toISOString :: "int \<Rightarrow> string"
  trace :: "Event list"
  drainTimers :: nat

definition CACHE_DURATION :: int where
  "CACHE_DURATION = 30 * 60 * 1000"

definition mathRandom :: "World \<Rightarrow> real \<times> World" where
  "mathRandom w = (randoms w (randomDraws w), w\<lparr>randomDraws := Suc (randomDraws w)\<rparr>)"

text \<open>The network status after the platform reported a loss of connectivity.\<close>

definition lostStatus :: NetworkStatus where
  "lostStatus = \<lparr>isConnected = False, netType = Some ''none'', isInternetReachable = Some False\<rparr>"

definition netExchange :: "string \<Rightarrow> string \<Rightarrow> World \<Rightarrow> Exchange \<times> World" where
  "netExchange method url w =
     (let x = exchanges w (netCalls w) in
      (x, w\<lparr>netCalls := Suc (netCalls w),
            clock := clock w + int (elapsed x),
            networkStatus := (if connectionLost x then lostStatus else networkStatus w),
            trace := trace w @ [NetworkCall method url]\<rparr>))"

text \<open>\<open>await new Promise(resolve => setTimeout(resolve, delay))\<close>; the timer is taken to
  fire when it is due.\<close>

definition sleep :: "real \<Rightarrow> World \<Rightarrow> World" where
  "sleep delay w = w\<lparr>clock := clock w + max 0 \<lceil>delay\<rceil>, trace := trace w @ [BackoffWait delay]\<rparr>"

text \<open>\<open>`${this.baseUrl}`\<close>.\<close>

definition urlBase :: "World \<Rightarrow> string" where
  "urlBase w = (case baseUrl w of None \<Rightarrow> ''null'' | Some u \<Rightarrow> u)"

text \<open>\<open>!this.baseUrl\<close>.\<close>

definition noBaseUrl :: "World \<Rightarrow> bool" where
  "noBaseUrl w = (case baseUrl w of None \<Rightarrow> True | Some u \<Rightarrow> u = [])"


section \<open>Retry with exponential backoff\<close>

text \<open>
  \<open>calculateRetryDelay(retryCount)\<close>: first the delay for retry number \<open>n\<close> (the source's
  parameter \<open>retryCount\<close>) and the number \<open>random\<close> that \<open>Math.random()\<close> returned, then
  the method, which draws that number.
\<close>

definition backoffDelay :: "RetryConfig \<Rightarrow> real \<Rightarrow> nat \<Rightarrow> real" where
  "backoffDelay cfg random n =
     (let delay = min (baseDelay cfg * backoffFactor cfg ^ n) (maxDelay cfg);
          jitter = random * 0.1 * delay
      in delay + jitter)"

definition calculateRetryDelay :: "nat \<Rightarrow> World \<Rightarrow> real \<times> World" where
  "calculateRetryDelay n w =
     (let (random, w1) = mathRandom w
      in (backoffDelay (retryConfig w1) random n, w1))"

text \<open>\<open>isNonRetryableError(error)\<close> reads only \<open>error.message\<close>.\<close>

definition isNonRetryableError :: "string \<Rightarrow> bool" where
  "isNonRetryableError errorMessage =
     (let message = toLowerCase errorMessage in
      if strIncludes message ''401'' \<or> strIncludes message ''unauthorized'' then True
      else if strIncludes message ''400'' \<or> strIncludes message ''bad request'' then True
      else if strIncludes message ''404'' \<or> strIncludes message ''not found'' then True
      else if strIncludes message ''413'' \<or> strIncludes message ''payload too large'' then True
      else False)"

text \<open>The body of the loop's \<open>try\<close>: the connectivity check, then the request.\<close>

definition attemptOnce ::
  "(World \<Rightarrow> (Thrown + 'a) \<times> World) \<Rightarrow> World \<Rightarrow> (Thrown + 'a) \<times> World" where
  "attemptOnce requestFn w =
     (if \<not> isConnected (networkStatus w) then (Inl (Error ''No network connection''), w)
      else requestFn w)"

text \<open>
  The \<open>for\<close> loop of \<open>executeWithRetry\<close>, from attempt \<open>attempt\<close> on; \<open>retryLimit\<close> is the
  source's parameter \<open>maxRetries\<close> (callers that leave it out pass
  \<open>this.retryConfig.maxRetries\<close>). A caught value that is not an \<open>Error\<close> has no
  \<open>message\<close>: reading it in \<open>isNonRetryableError\<close> throws a \<open>TypeError\<close> out of the \<open>catch\<close>
  block (with the engine's message; V8's is written here). When the loop body never
  runs, \<open>throw lastError\<close> throws \<open>undefined\<close>.
\<close>

definition typeErrorMessage :: string where
  "typeErrorMessage = ''Cannot read properties of undefined (reading 'message')''"

function retryLoop ::
  "(World \<Rightarrow> (Thrown + 'a) \<times> World) \<Rightarrow> int \<Rightarrow> nat \<Rightarrow> Thrown \<Rightarrow> World
    \<Rightarrow> (Thrown + 'a) \<times> World" where
  "retryLoop requestFn retryLimit attempt lastError w =
     (if int attempt \<le> retryLimit then
        (case attemptOnce requestFn w of
           (Inr result, w1) \<Rightarrow> (Inr result, w1)
         | (Inl Undefined, w1) \<Rightarrow> (Inl (Error typeErrorMessage), w1)
         | (Inl (Error message), w1) \<Rightarrow>
             if isNonRetryableError message then (Inl (Error message), w1)
             else if int attempt \<ge> retryLimit then (Inl (Error message), w1)
             else (case calculateRetryDelay attempt w1 of
                     (delay, w2) \<Rightarrow>
                       retryLoop requestFn retryLimit (Suc attempt) (Error message)
                         (sleep delay w2)))
      else (Inl lastError, w))"
  by pat_completeness auto
termination
  by (relation "measure (\<lambda>(requestFn, retryLimit, attempt, lastError, w).
        nat (retryLimit + 1 - int attempt))") auto

declare retryLoop.simps [simp del]

definition executeWithRetry ::
  "(World \<Rightarrow> (Thrown + 'a) \<times> World) \<Rightarrow> int \<Rightarrow> World \<Rightarrow> (Thrown + 'a) \<times> World" where
  "executeWithRetry requestFn retryLimit w = retryLoop requestFn retryLimit 0 Undefined w"


section \<open>The configuration cache\<close>

text \<open>\<open>configCache\<close> is a \<open>Map\<close>: \<open>set\<close> replaces the entry of a key it has and appends a
  new key, \<open>delete\<close> removes the key.\<close>

definition getCachedConfig :: "string \<Rightarrow> World \<Rightarrow> JsObject option \<times> World" where
  "getCachedConfig exerciseType w =
     (case map_of (configCache w) exerciseType of
        None \<Rightarrow> (None, w)
      | Some cached \<Rightarrow>
          if clock w > expiresAt cached
          then (None, w\<lparr>configCache := AList.delete exerciseType (configCache w)\<rparr>)
          else (Some (cachedData cached), w))"

definition cacheConfig :: "string \<Rightarrow> JsObject \<Rightarrow> World \<Rightarrow> World" where
  "cacheConfig exerciseType config w =
     (let cacheEntry = \<lparr>cachedData = config, cachedAt = clock w,
                         expiresAt = clock w + CACHE_DURATION\<rparr>
      in w\<lparr>configCache := AList.update exerciseType cacheEntry (configCache w)\<rparr>)"


section \<open>Fallback data\<close>

text \<open>The names every object literal inherits from \<open>Object.prototype\<close>.\<close>

definition objectPrototypeKeys :: "string list" where
  "objectPrototypeKeys =
     [''constructor'', ''__defineGetter__'', ''__defineSetter__'', ''hasOwnProperty'',
      ''__lookupGetter__'', ''__lookupSetter__'', ''isPrototypeOf'', ''propertyIsEnumerable'',
      ''toString'', ''valueOf'', ''__proto__'', ''toLocaleString'']"

text \<open>\<open>table[key]\<close> on an object literal.\<close>

definition lookupLiteral :: "JsObject \<Rightarrow> string \<Rightarrow> JsVal" where
  "lookupLiteral table key =
     (case map_of table key of
        Some v \<Rightarrow> v
      | None \<Rightarrow> if key \<in> set objectPrototypeKeys then JInherited key else JUndefined)"

text \<open>\<open>obj.key\<close> for an own property of a value.\<close>

fun property :: "string \<Rightarrow> JsVal \<Rightarrow> JsVal" where
  "property key (JObj kvs) = (case map_of kvs key of Some v \<Rightarrow> v | None \<Rightarrow> JUndefined)"
| "property key v = JUndefined"

definition fallbackConfigs :: JsObject where
  "fallbackConfigs =
     [(''squat'', JObj
        [(''exerciseType'', JStr ''squat''),
         (''targetKeypoints'', JArr [JStr ''left_hip'', JStr ''right_hip'', JStr ''left_knee'',
            JStr ''right_knee'', JStr ''left_ankle'', JStr ''right_ankle'']),
         (''thresholds'', JObj [(''minAngle'', JNum 90), (''maxAngle'', JNum 170),
            (''holdTime'', JNum 1.0)]),
         (''formChecks'', JArr [JStr ''knee_alignment'', JStr ''back_straight'',
            JStr ''depth_check'']),
         (''feedback'', JObj [(''realTimeEnabled'', JBool True), (''audioEnabled'', JBool True),
            (''visualEnabled'', JBool True)])]),
      (''push_up'', JObj
        [(''exerciseType'', JStr ''push_up''),
         (''targetKeypoints'', JArr [JStr ''left_shoulder'', JStr ''right_shoulder'',
            JStr ''left_elbow'', JStr ''right_elbow'', JStr ''left_wrist'', JStr ''right_wrist'']),
         (''thresholds'', JObj [(''minAngle'', JNum 45), (''maxAngle'', JNum 160),
            (''holdTime'', JNum 0.5)]),
         (''formChecks'', JArr [JStr ''elbow_alignment'', JStr ''body_straight'',
            JStr ''full_range'']),
         (''feedback'', JObj [(''realTimeEnabled'', JBool True), (''audioEnabled'', JBool True),
            (''visualEnabled'', JBool True)])])]"

definition getFallbackExerciseConfig :: "string \<Rightarrow> JsVal" where
  "getFallbackExerciseConfig exerciseType =
     (let found = lookupLiteral fallbackConfigs exerciseType
      in if truthy found then found else lookupLiteral fallbackConfigs ''squat'')"

text \<open>\<open>a % b\<close> on integers: the remainder has the sign of the dividend.\<close>

definition jsRemainder :: "int \<Rightarrow> int \<Rightarrow> int" where
  "jsRemainder a b = sgn a * (\<bar>a\<bar> mod \<bar>b\<bar>)"

definition mathRound :: "real \<Rightarrow> real" where
  "mathRound x = of_int \<lfloor>x + 1 / 2\<rfloor>"

text \<open>The object literal \<open>{ x, y, z, visibility, name }\<close>.\<close>

definition keypointLiteral :: "real \<Rightarrow> real \<Rightarrow> real \<Rightarrow> real \<Rightarrow> string \<Rightarrow> JsVal" where
  "keypointLiteral x y z visibility name =
     JObj [(''x'', JNum x), (''y'', JNum y), (''z'', JNum z),
           (''visibility'', JNum visibility), (''name'', JStr name)]"

text \<open>
  \<open>getFallbackPoseData\<close> reads the clock twice: \<open>now\<close> is what \<open>Date.now()\<close> returned and
  \<open>stamp\<close> the instant of the later \<open>new Date()\<close>. The world gives \<open>Math.sin\<close>, \<open>Math.PI\<close>
  and \<open>toISOString\<close>. The first assignment to \<open>currentRep\<close> (in the hold branch) is
  overwritten by the second before it is read.
\<close>

definition getFallbackPoseData :: "World \<Rightarrow> string \<Rightarrow> int \<Rightarrow> int \<Rightarrow> JsVal" where
  "getFallbackPoseData w exerciseType now stamp =
     (let cycleTime = 8000;
          progress = real_of_int (jsRemainder now cycleTime) / real_of_int cycleTime;
          (stage, formScore, warnings) =
            (if progress < 0.2 then
               (''rest'', 85 + mathSin w (progress * 10) * 3,
                [''Get ready to start your squat''])
             else if progress < 0.5 then
               (''down'', 88 + mathSin w (progress * 8) * 4,
                [''Descending - control the movement'', ''Keep your back straight''])
             else if progress < 0.7 then
               (''hold'', 92 + mathSin w (progress * 12) * 2,
                [''Hold position - great depth!''])
             else
               (''up'', 90 + mathSin w (progress * 6) * 3,
                [''Rising up - push through your heels'']));
          currentRep = of_int \<lfloor>real_of_int now / real_of_int cycleTime\<rfloor> + 1;
          baseY = 0.5 + mathSin w (progress * mathPI w * 2) * 0.1
      in JObj
        [(''keypoints'', JArr
            [keypointLiteral 0.45 (baseY - 0.1) 0.1 0.95 ''left_hip'',
             keypointLiteral 0.55 (baseY - 0.1) 0.1 0.95 ''right_hip'',
             keypointLiteral 0.43 (baseY + 0.15) 0.2 0.92 ''left_knee'',
             keypointLiteral 0.57 (baseY + 0.15) 0.2 0.92 ''right_knee'',
             keypointLiteral 0.40 (baseY + 0.35) 0.3 0.90 ''left_ankle'',
             keypointLiteral 0.60 (baseY + 0.35) 0.3 0.90 ''right_ankle'']),
         (''confidence'', JNum (0.88 + mathSin w (progress * 4) * 0.05)),
         (''formScore'', JNum (mathRound formScore)),
         (''currentRep'', JNum currentRep),
         (''stage'', JStr stage),
         (''warnings'', JArr (map JStr warnings)),
         (''timestamp'', JStr (toISOString w stamp))])"


section \<open>Validating pose data\<close>

text \<open>\<open>typeof v === 'number'\<close>, \<open>typeof v === 'string'\<close> and \<open>Array.isArray(v)\<close>.\<close>

fun isNumber :: "JsVal \<Rightarrow> bool" where
  "isNumber (JNum x) = True"
| "isNumber v = False"

fun isString :: "JsVal \<Rightarrow> bool" where
  "isString (JStr s) = True"
| "isString v = False"

fun isArray :: "JsVal \<Rightarrow> bool" where
  "isArray (JArr xs) = True"
| "isArray v = False"

text \<open>
  \<open>validatePoseKeypoint(keypoint)\<close>. \<open>null\<close> passes \<open>typeof keypoint === 'object'\<close> and
  reading \<open>keypoint.x\<close> then throws a \<open>TypeError\<close> (V8's message is written here); an
  array has no \<open>x\<close>, so the second test fails; anything else that is not an object fails
  one of the first two tests.
\<close>

fun validatePoseKeypoint :: "JsVal \<Rightarrow> Thrown + bool" where
  "validatePoseKeypoint JNull = Inl (Error ''Cannot read properties of null (reading 'x')'')"
| "validatePoseKeypoint (JObj kvs) =
     Inr (isNumber (property ''x'' (JObj kvs))
          \<and> isNumber (property ''y'' (JObj kvs))
          \<and> isString (property ''name'' (JObj kvs))
          \<and> (property ''z'' (JObj kvs) = JUndefined \<or> isNumber (property ''z'' (JObj kvs)))
          \<and> (property ''visibility'' (JObj kvs) = JUndefined
               \<or> isNumber (property ''visibility'' (JObj kvs))))"
| "validatePoseKeypoint v = Inr False"

text \<open>\<open>keypoints.every(kp => this.validatePoseKeypoint(kp))\<close>: stops at the first keypoint
  that is refused, or that makes the validator throw.\<close>

fun everyKeypoint :: "JsVal list \<Rightarrow> Thrown + bool" where
  "everyKeypoint [] = Inr True"
| "everyKeypoint (kp # kps) =
     (case validatePoseKeypoint kp of
        Inl error \<Rightarrow> Inl error
      | Inr ok \<Rightarrow> if ok then everyKeypoint kps else Inr False)"

text \<open>
  \<open>validatePoseData(data)\<close>, the service's check that a value is a \<open>PoseData\<close>: an object
  with the six required fields (\<open>field in data\<close> sees own and inherited names), each of
  its type, every keypoint valid, and the stage one of \<open>up\<close>, \<open>down\<close>, \<open>hold\<close>, \<open>rest\<close>.
  A value that is no object fails the first test; an array and an inherited value
  (a function, or \<open>Object.prototype\<close>) have no \<open>keypoints\<close> and fail the test of the
  required fields.
\<close>

definition validatePoseData :: "JsVal \<Rightarrow> Thrown + bool" where
  "validatePoseData data =
     (case data of
        JObj kvs \<Rightarrow>
          if \<not> list_all (\<lambda>field. field \<in> fst ` set kvs \<or> field \<in> set objectPrototypeKeys)
                 [''keypoints'', ''confidence'', ''formScore'', ''currentRep'', ''stage'', ''warnings'']
          then Inr False
          else if \<not> (isArray (property ''keypoints'' data)
                       \<and> isNumber (property ''confidence'' data)
                       \<and> isNumber (property ''formScore'' data)
                       \<and> isNumber (property ''currentRep'' data)
                       \<and> isString (property ''stage'' data)
                       \<and> isArray (property ''warnings'' data))
          then Inr False
          else
            (case everyKeypoint (case property ''keypoints'' data of JArr kps \<Rightarrow> kps | v \<Rightarrow> []) of
               Inl error \<Rightarrow> Inl error
             | Inr ok \<Rightarrow>
                 if \<not> ok then Inr False
                 else if property ''stage'' data
                           \<notin> set [JStr ''up'', JStr ''down'', JStr ''hold'', JStr ''rest'']
                 then Inr False
                 else Inr True)
      | v \<Rightarrow> Inr False)"


section \<open>The offline queue\<close>

text \<open>\<open>queueRequest(type, data)\<close>; the identifier is
  \<open>`${type}_${Date.now()}_${Math.random().toString(36).substr(2, 9)}`\<close>.\<close>

definition queueRequest :: "RequestData \<Rightarrow> World \<Rightarrow> string \<times> World" where
  "queueRequest d w =
     (let (random, w1) = mathRandom w;
          request = \<lparr>requestId = typeName (requestType d) @ ''_'' @ numberToString (clock w1)
                        @ ''_'' @ take 9 (drop 2 (toString36 w1 random)),
                     requestData = d, queuedAt = clock w1, retryCount = 0\<rparr>
      in (requestId request, w1\<lparr>requestQueue := requestQueue w1 @ [request]\<rparr>))"

definition queuedMessage :: "string \<Rightarrow> string" where
  "queuedMessage requestId' = ''No network connection. Request queued with ID: '' @ requestId'"


section \<open>The public operations\<close>

text \<open>\<open>response.ok\<close>, and the test \<open>xhr.status >= 200 && xhr.status < 300\<close>.\<close>

definition responseOk :: "nat \<Rightarrow> bool" where
  "responseOk status = (200 \<le> status \<and> status < 300)"

text \<open>What reading a successful reply gives at an endpoint with a validator.\<close>

fun decoded :: "Body \<Rightarrow> string + JsObject" where
  "decoded (JsonFails m) = Inl m"
| "decoded (Invalid raw m) = Inl m"
| "decoded (Valid raw obj) = Inr obj"

text \<open>The request of \<open>uploadVideo\<close> (the progress callback only reports and is left out).\<close>

definition uploadVideoRequest :: "string \<Rightarrow> string \<Rightarrow> World \<Rightarrow> (Thrown + JsVal) \<times> World" where
  "uploadVideoRequest videoPath exerciseType w =
     (case netExchange ''POST'' (urlBase w @ ''/api/analyze-video'') w of
        (x, w1) \<Rightarrow>
          (case outcome x of
             TransportError m \<Rightarrow> (Inl (Error ''Network error during upload''), w1)
           | TransportTimeout m \<Rightarrow> (Inl (Error ''Upload timeout''), w1)
           | Replied status statusText body \<Rightarrow>
               if responseOk status then
                 (case decoded body of
                    Inl m \<Rightarrow> (Inl (Error (''Invalid response format: '' @ m)), w1)
                  | Inr result \<Rightarrow> (Inr (JObj result), w1))
               else (Inl (Error (''Upload failed with status '' @ decimal status)), w1)))"

definition uploadVideo :: "string \<Rightarrow> string \<Rightarrow> World \<Rightarrow> (Thrown + JsVal) \<times> World" where
  "uploadVideo videoPath exerciseType w =
     (if noBaseUrl w then (Inl (Error ''Backend service not initialized''), w)
      else if \<not> isConnected (networkStatus w) then
        (case queueRequest (VideoData videoPath exerciseType) w of
           (requestId', w1) \<Rightarrow> (Inl (Error (queuedMessage requestId')), w1))
      else executeWithRetry (uploadVideoRequest videoPath exerciseType)
             (maxRetries (retryConfig w)) w)"

definition analyzeFrameRequest :: "string \<Rightarrow> string \<Rightarrow> World \<Rightarrow> (Thrown + JsVal) \<times> World" where
  "analyzeFrameRequest frameData exerciseType w =
     (case netExchange ''POST'' (urlBase w @ ''/api/analyze-frame'') w of
        (x, w1) \<Rightarrow>
          (case outcome x of
             TransportError m \<Rightarrow> (Inl (Error m), w1)
           | TransportTimeout m \<Rightarrow> (Inl (Error m), w1)
           | Replied status statusText body \<Rightarrow>
               if \<not> responseOk status then
                 (if status = 403 \<or> status = 401 then
                    (Inr (getFallbackPoseData w1 exerciseType (clock w1) (clock w1)), w1)
                  else if status = 422 then
                    (Inr (getFallbackPoseData w1 exerciseType (clock w1) (clock w1)), w1)
                  else if status = 500 then
                    (Inr (getFallbackPoseData w1 exerciseType (clock w1) (clock w1)), w1)
                  else (Inl (Error (''Frame analysis failed: '' @ decimal status @ '' ''
                                      @ statusText)), w1))
               else
                 (case decoded body of
                    Inl m \<Rightarrow> (Inl (Error m), w1)
                  | Inr result \<Rightarrow> (Inr (JObj result), w1))))"

definition analyzeFrame :: "string \<Rightarrow> string \<Rightarrow> World \<Rightarrow> (Thrown + JsVal) \<times> World" where
  "analyzeFrame frameData exerciseType w =
     (if noBaseUrl w then (Inl (Error ''Backend service not initialized''), w)
      else if \<not> isConnected (networkStatus w) then
        (Inl (Error ''No network connection for real-time analysis''), w)
      else executeWithRetry (analyzeFrameRequest frameData exerciseType) 1 w)"

definition getExerciseConfigRequest :: "string \<Rightarrow> World \<Rightarrow> (Thrown + JsVal) \<times> World" where
  "getExerciseConfigRequest exerciseType w =
     (case netExchange ''GET'' (urlBase w @ ''/api/exercise-config/'' @ exerciseType) w of
        (x, w1) \<Rightarrow>
          (case outcome x of
             TransportError m \<Rightarrow> (Inl (Error m), w1)
           | TransportTimeout m \<Rightarrow> (Inl (Error m), w1)
           | Replied status statusText body \<Rightarrow>
               if \<not> responseOk status then
                 (if status = 403 \<or> status = 401 then
                    (Inr (getFallbackExerciseConfig exerciseType), w1)
                  else if status = 404 then
                    (Inr (getFallbackExerciseConfig exerciseType), w1)
                  else if status = 500 then
                    (Inr (getFallbackExerciseConfig exerciseType), w1)
                  else (Inl (Error (''Failed to get exercise config: '' @ decimal status
                                      @ '' '' @ statusText)), w1))
               else
                 (case decoded body of
                    Inl m \<Rightarrow> (Inl (Error m), w1)
                  | Inr config \<Rightarrow> (Inr (JObj config), cacheConfig exerciseType config w1))))"

definition getExerciseConfig :: "string \<Rightarrow> World \<Rightarrow> (Thrown + JsVal) \<times> World" where
  "getExerciseConfig exerciseType w =
     (if noBaseUrl w then (Inl (Error ''Backend service not initialized''), w)
      else
        (case getCachedConfig exerciseType w of
           (Some cached, w1) \<Rightarrow> (Inr (JObj cached), w1)
         | (None, w1) \<Rightarrow>
             if \<not> isConnected (networkStatus w1) then
               (case queueRequest (ConfigData exerciseType) w1 of
                  (requestId', w2) \<Rightarrow> (Inl (Error (queuedMessage requestId')), w2))
             else executeWithRetry (getExerciseConfigRequest exerciseType)
                    (maxRetries (retryConfig w1)) w1))"

text \<open>The session summary has no validator: the parsed body is returned when it is an
  object.\<close>

fun parsedBody :: "Body \<Rightarrow> string + JsVal" where
  "parsedBody (JsonFails m) = Inl m"
| "parsedBody (Invalid raw m) = Inr raw"
| "parsedBody (Valid raw obj) = Inr raw"

definition submitSessionSummaryRequest ::
  "SessionData \<Rightarrow> World \<Rightarrow> (Thrown + JsVal) \<times> World" where
  "submitSessionSummaryRequest sessionData w =
     (case netExchange ''POST'' (urlBase w @ ''/api/session-summary'') w of
        (x, w1) \<Rightarrow>
          (case outcome x of
             TransportError m \<Rightarrow> (Inl (Error m), w1)
           | TransportTimeout m \<Rightarrow> (Inl (Error m), w1)
           | Replied status statusText body \<Rightarrow>
               if \<not> responseOk status then
                 (Inl (Error (''Session summary failed: '' @ decimal status @ '' ''
                                @ statusText)), w1)
               else
                 (case parsedBody body of
                    Inl m \<Rightarrow> (Inl (Error m), w1)
                  | Inr rawResponse \<Rightarrow>
                      if \<not> (truthy rawResponse \<and> typeofObject rawResponse)
                      then (Inl (Error ''Invalid session summary response format''), w1)
                      else (Inr rawResponse, w1))))"

definition submitSessionSummary :: "SessionData \<Rightarrow> World \<Rightarrow> (Thrown + JsVal) \<times> World" where
  "submitSessionSummary sessionData w =
     (if noBaseUrl w then (Inl (Error ''Backend service not initialized''), w)
      else if \<not> isConnected (networkStatus w) then
        (case queueRequest (SummaryData sessionData) w of
           (requestId', w1) \<Rightarrow> (Inl (Error (queuedMessage requestId')), w1))
      else executeWithRetry (submitSessionSummaryRequest sessionData)
             (maxRetries (retryConfig w)) w)"


text \<open>
  \<open>initialize\<close> and \<open>checkBackendHealth\<close>. The discovery of a backend URL
  (\<open>networkConfig.findBestBackendUrl()\<close>, which probes a list of hosts) is a collaborator
  of the service and is taken as the parameter \<open>discover\<close>: it throws, or returns the URL
  it found, if any. \<open>checkBackendHealth\<close> is the one operation that enters
  \<open>executeWithRetry\<close> without looking at the network status first.
\<close>

definition initialize ::
  "(World \<Rightarrow> (Thrown + string option) \<times> World) \<Rightarrow> World \<Rightarrow> bool \<times> World" where
  "initialize discover w =
     (if isInitialized w \<and> \<not> noBaseUrl w then (True, w)
      else
        (case discover w of
           (Inl error, w1) \<Rightarrow> (False, w1)
         | (Inr None, w1) \<Rightarrow> (False, w1)
         | (Inr (Some url), w1) \<Rightarrow>
             if url \<noteq> [] then (True, w1\<lparr>baseUrl := Some url, isInitialized := True\<rparr>)
             else (False, w1)))"

definition healthCheckRequest :: "World \<Rightarrow> (Thrown + bool) \<times> World" where
  "healthCheckRequest w =
     (case netExchange ''GET'' (urlBase w @ ''/'') w of
        (x, w1) \<Rightarrow>
          (case outcome x of
             TransportError m \<Rightarrow> (Inl (Error m), w1)
           | TransportTimeout m \<Rightarrow> (Inl (Error m), w1)
           | Replied status statusText body \<Rightarrow>
               if \<not> responseOk status then
                 (Inl (Error (''Health check failed: '' @ decimal status)), w1)
               else
                 (case parsedBody body of
                    Inl m \<Rightarrow> (Inl (Error m), w1)
                  | Inr data \<Rightarrow> (Inr (responseOk status), w1))))"

definition checkBackendHealth ::
  "(World \<Rightarrow> (Thrown + string option) \<times> World) \<Rightarrow> World \<Rightarrow> bool \<times> World" where
  "checkBackendHealth discover w =
     (case (if noBaseUrl w then initialize discover w else (True, w)) of
        (False, w1) \<Rightarrow> (False, w1)
      | (True, w1) \<Rightarrow>
          (case executeWithRetry healthCheckRequest 1 w1 of
             (Inr result, w2) \<Rightarrow> (result, w2)
           | (Inl error, w2) \<Rightarrow> (False, w2)))"


section \<open>Replaying the queue\<close>

definition processQueuedRequest :: "QueuedRequest \<Rightarrow> World \<Rightarrow> (Thrown + JsVal) \<times> World" where
  "processQueuedRequest request w =
     (case requestData request of
        VideoData videoPath exerciseType \<Rightarrow> uploadVideo videoPath exerciseType w
      | FrameData frameData exerciseType \<Rightarrow> analyzeFrame frameData exerciseType w
      | ConfigData exerciseType \<Rightarrow> getExerciseConfig exerciseType w
      | SummaryData sessionData \<Rightarrow> submitSessionSummary sessionData w)"

text \<open>One turn of the \<open>for\<close> loop of \<open>processRequestQueue\<close>. The trace records where the
  replay of a request starts.\<close>

definition replayRequest :: "QueuedRequest \<Rightarrow> World \<Rightarrow> World" where
  "replayRequest request w =
     (case processQueuedRequest request (w\<lparr>trace := trace w @ [ReplayStart (requestId request)]\<rparr>) of
        (Inr result, w1) \<Rightarrow> w1
      | (Inl error, w1) \<Rightarrow>
          if int (retryCount request) < maxRetries (retryConfig w1)
          then w1\<lparr>requestQueue := requestQueue w1 @ [request\<lparr>retryCount := retryCount request + 1\<rparr>]\<rparr>
          else w1)"

fun replayAll :: "QueuedRequest list \<Rightarrow> World \<Rightarrow> World" where
  "replayAll [] w = w"
| "replayAll (request # requests) w = replayAll requests (replayRequest request w)"

definition processRequestQueue :: "World \<Rightarrow> World" where
  "processRequestQueue w =
     (if isProcessingQueue w \<or> requestQueue w = [] then w
      else
        (let requestsToProcess = requestQueue w;
             w1 = replayAll requestsToProcess (w\<lparr>isProcessingQueue := True, requestQueue := []\<rparr>);
             w2 = w1\<lparr>isProcessingQueue := False\<rparr>
         in if requestQueue w2 \<noteq> [] then w2\<lparr>drainTimers := drainTimers w2 + 1\<rparr> else w2))"

text \<open>The listener registered with NetInfo; \<open>state.isConnected ?? false\<close>.\<close>

record NetInfoState =
  stateIsConnected :: "bool option"
  stateType :: "string option"
  stateIsInternetReachable :: "bool option"

definition netInfoListener :: "NetInfoState \<Rightarrow> World \<Rightarrow> World" where
  "netInfoListener state w =
     (let wasConnected = isConnected (networkStatus w);
          w1 = w\<lparr>networkStatus :=
                  \<lparr>isConnected = (case stateIsConnected state of None \<Rightarrow> False | Some b \<Rightarrow> b),
                   netType = stateType state,
                   isInternetReachable = stateIsInternetReachable state\<rparr>\<rparr>
      in if \<not> wasConnected \<and> isConnected (networkStatus w1) \<and> requestQueue w1 \<noteq> []
         then processRequestQueue w1 else w1)"


section \<open>Observations and example worlds\<close>


fun backoffWaits :: "Event list \<Rightarrow> real list" where
  "backoffWaits [] = []"
| "backoffWaits (BackoffWait d # es) = d # backoffWaits es"
| "backoffWaits (NetworkCall method url # es) = backoffWaits es"
| "backoffWaits (ReplayStart i # es) = backoffWaits es"

text \<open>
  The service as its constructor leaves it (the field initialisers of the class), on a
  platform whose network fails every call, whose \<open>Math.random()\<close> returns 0 (rendered
  \<open>0\<close> in base 36) and whose clock stands at 0, with the real sine and \<open>\<pi>\<close> for \<open>Math.sin\<close>
  and \<open>Math.PI\<close>; then the same after \<open>initialize()\<close> found a backend, and after the
  platform reported the loss of connectivity.
\<close>

definition freshService :: World where
  "freshService =
     \<lparr>baseUrl = None, authToken = None, isInitialized = False, requestQueue = [],
      isProcessingQueue = False,
      networkStatus = \<lparr>isConnected = True, netType = None, isInternetReachable = None\<rparr>,
      retryConfig = \<lparr>maxRetries = 3, baseDelay = 1000, maxDelay = 10000, backoffFactor = 2\<rparr>,
      configCache = [],
      clock = 0,
      exchanges = (\<lambda>n. \<lparr>outcome = TransportError ''Network request failed'', elapsed = 0,
                          connectionLost = False\<rparr>),
      netCalls = 0,
      randoms = (\<lambda>n. 0),
      randomDraws = 0,
      mathSin = sin,
      mathPI = pi,
      toString36 = (\<lambda>x. ''0''),
      toISOString = (\<lambda>t. ''1970-01-01T00:00:00.000Z''),
      trace = [],
      drainTimers = 0\<rparr>"

definition readyService :: World where
  "readyService = freshService\<lparr>baseUrl := Some ''http://10.0.2.2:8000'', isInitialized := True\<rparr>"

definition offlineService :: World where
  "offlineService = readyService\<lparr>networkStatus := lostStatus\<rparr>"

definition squatEntry :: CacheEntry where
  "squatEntry = \<lparr>cachedData = [(''exerciseType'', JStr ''squat'')], cachedAt = 0,
                  expiresAt = 1800000\<rparr>"

definition someSession :: SessionData where
  "someSession = \<lparr>sessionExerciseType = ''squat'', duration = 60, totalReps = 12,
                   averageAccuracy = 90, userId = ''u1''\<rparr>"

text \<open>A reply with the given status and an unreadable body, taking 20 ms.\<close>

definition replyWith :: "nat \<Rightarrow> string \<Rightarrow> Exchange" where
  "replyWith status statusText =
     \<lparr>outcome = Replied status statusText (JsonFails ''Unexpected end of input''),
      elapsed = 20, connectionLost = False\<rparr>"


text \<open>The world after the backoff that follows a failed attempt \<open>k\<close>: the delay is computed,
  then waited.\<close>

definition afterBackoff :: "nat \<Rightarrow> World \<Rightarrow> World" where
  "afterBackoff k w = sleep (fst (calculateRetryDelay k w)) (snd (calculateRetryDelay k w))"

text \<open>The HTTP status of an exchange, when the backend replied.\<close>

definition replyStatus :: "Exchange \<Rightarrow> nat option" where
  "replyStatus x = (case outcome x of Replied status statusText body \<Rightarrow> Some status | _ \<Rightarrow> None)"

text \<open>A backend that answers every call with 401, after \<open>n\<close> frame analyses.\<close>

definition unauthorizedService :: "nat \<Rightarrow> World" where
  "unauthorizedService n =
     readyService\<lparr>exchanges := (\<lambda>i. replyWith 401 ''Unauthorized''), netCalls := n,
                  clock := 20 * int n,
                  trace := replicate n (NetworkCall ''POST'' ''http://10.0.2.2:8000/api/analyze-frame'')\<rparr>"

text \<open>A backend that answers every call with 404.\<close>

definition notFoundService :: World where
  "notFoundService = readyService\<lparr>exchanges := (\<lambda>i. replyWith 404 ''Not Found'')\<rparr>"



text \<open>The entry that \<open>cacheConfig\<close> stores for a configuration at the clock of \<open>w\<close>.\<close>

definition cacheEntryAt :: "World \<Rightarrow> JsObject \<Rightarrow> CacheEntry" where
  "cacheEntryAt w config =
     \<lparr>cachedData = config, cachedAt = clock w, expiresAt = clock w + CACHE_DURATION\<rparr>"

text \<open>A backend that answers every call with 500.\<close>

definition serverErrorService :: World where
  "serverErrorService = readyService\<lparr>exchanges := (\<lambda>i. replyWith 500 ''Internal Server Error'')\<rparr>"

text \<open>A backend that answers every call with a configuration that the validator accepts.\<close>

definition squatConfig :: JsObject where
  "squatConfig = [(''exerciseType'', JStr ''squat''), (''targetKeypoints'', JArr [JStr ''left_hip'']),
                  (''thresholds'', JObj [(''minAngle'', JNum 90)]), (''feedback'', JObj [])]"

definition configService :: World where
  "configService = readyService\<lparr>exchanges := (\<lambda>i.
      \<lparr>outcome = Replied 200 ''OK'' (Valid (JObj [(''exercise_type'', JStr ''squat'')]) squatConfig),
       elapsed = 20, connectionLost = False\<rparr>)\<rparr>"





text \<open>A backend that answers every call with the given status and status text.\<close>

definition statusService :: "nat \<Rightarrow> string \<Rightarrow> World" where
  "statusService status statusText = readyService\<lparr>exchanges := (\<lambda>i. replyWith status statusText)\<rparr>"






section \<open>The backoff delay\<close>

lemma backoffDelay_bounds:
  assumes "0 \<le> baseDelay cfg" "0 \<le> backoffFactor cfg" "0 \<le> maxDelay cfg" "0 \<le> r" "r < 1"
  shows "min (baseDelay cfg * backoffFactor cfg ^ k) (maxDelay cfg) \<le> backoffDelay cfg r k"
    and "backoffDelay cfg r k \<le> min (baseDelay cfg * backoffFactor cfg ^ k) (maxDelay cfg) * 1.1"
proof -
  let ?d = "min (baseDelay cfg * backoffFactor cfg ^ k) (maxDelay cfg)"
  have d0: "0 \<le> ?d" using assms by simp
  have eq: "backoffDelay cfg r k = ?d + r * 0.1 * ?d" by (simp add: backoffDelay_def Let_def)
  have "0 \<le> r * 0.1 * ?d" using d0 assms(4) by simp
  then show "?d \<le> backoffDelay cfg r k" using eq by linarith
  have "r * ?d \<le> 1 * ?d" using assms(5) d0 by (intro mult_right_mono) auto
  then show "backoffDelay cfg r k \<le> ?d * 1.1" using eq by simp
qed

text \<open>
  C5 (as amended). For a configuration with non-negative \<open>baseDelay\<close>, \<open>backoffFactor\<close>
  and \<open>maxDelay\<close> and a random number in \<open>[0, 1)\<close>, the delay before retry \<open>k\<close> lies between
  the capped delay \<open>min (baseDelay * backoffFactor^k) maxDelay\<close> and 1.1 times the capped
  delay: the cap is applied before the jitter is added, so the delay never exceeds
  \<open>1.1 * maxDelay\<close>, and it satisfies
  \<open>baseDelay * backoffFactor^k \<le> delay \<le> baseDelay * backoffFactor^k * 1.1\<close> whenever
  \<open>baseDelay * backoffFactor^k \<le> maxDelay\<close>.
\<close>

theorem calculateRetryDelay_bounds:
  assumes "0 \<le> baseDelay (retryConfig w)" and "0 \<le> backoffFactor (retryConfig w)"
    and "0 \<le> maxDelay (retryConfig w)"
    and "0 \<le> randoms w (randomDraws w)" and "randoms w (randomDraws w) < 1"
  shows "min (baseDelay (retryConfig w) * backoffFactor (retryConfig w) ^ k) (maxDelay (retryConfig w))
           \<le> fst (calculateRetryDelay k w)
       \<and> fst (calculateRetryDelay k w)
           \<le> min (baseDelay (retryConfig w) * backoffFactor (retryConfig w) ^ k) (maxDelay (retryConfig w)) * 1.1
       \<and> fst (calculateRetryDelay k w) \<le> maxDelay (retryConfig w) * 1.1
       \<and> (baseDelay (retryConfig w) * backoffFactor (retryConfig w) ^ k \<le> maxDelay (retryConfig w) \<longrightarrow>
            baseDelay (retryConfig w) * backoffFactor (retryConfig w) ^ k \<le> fst (calculateRetryDelay k w)
          \<and> fst (calculateRetryDelay k w) \<le> baseDelay (retryConfig w) * backoffFactor (retryConfig w) ^ k * 1.1)"
proof -
  let ?cfg = "retryConfig w" and ?r = "randoms w (randomDraws w)"
  have eq: "fst (calculateRetryDelay k w) = backoffDelay ?cfg ?r k"
    by (simp add: calculateRetryDelay_def mathRandom_def)
  note b = backoffDelay_bounds [OF assms, of k]
  have "backoffDelay ?cfg ?r k \<le> maxDelay ?cfg * 1.1"
    using b(2) by (simp add: min_def split: if_splits)
  then show ?thesis using b eq by (auto simp: min_def)
qed

text \<open>With the default configuration and \<open>Math.random() = 1/2\<close>, the delay before retry 2
  is \<open>4000 + 200\<close>, within \<open>[4000, 4400]\<close>.\<close>

theorem calculateRetryDelay_bounds_witness:
  "randoms (freshService\<lparr>randoms := (\<lambda>n. 1 / 2)\<rparr>) 0 < 1
   \<and> baseDelay (retryConfig freshService) * backoffFactor (retryConfig freshService) ^ 2 = 4000
   \<and> fst (calculateRetryDelay 2 (freshService\<lparr>randoms := (\<lambda>n. 1 / 2)\<rparr>)) = 4200
   \<and> 4000 \<le> fst (calculateRetryDelay 2 (freshService\<lparr>randoms := (\<lambda>n. 1 / 2)\<rparr>))
   \<and> fst (calculateRetryDelay 2 (freshService\<lparr>randoms := (\<lambda>n. 1 / 2)\<rparr>)) \<le> 4000 * 1.1"
  using calculateRetryDelay_bounds [of "freshService\<lparr>randoms := (\<lambda>n. 1 / 2)\<rparr>" 2]
  by (simp add: freshService_def calculateRetryDelay_def mathRandom_def backoffDelay_def)

text \<open>
  C5 as stated fails once \<open>baseDelay * backoffFactor^k\<close> passes \<open>maxDelay\<close>. After
  \<open>updateRetryConfig({maxRetries: 5})\<close>, retry 4 has \<open>1000 * 2^4 = 16000\<close>: with
  \<open>Math.random() = 0\<close> the delay is 10000, below the claimed lower bound, and with
  \<open>Math.random() = 1/2\<close> it is 10500, above \<open>maxDelay\<close>.
\<close>

theorem calculateRetryDelay_counterexample:
  "fst (calculateRetryDelay 4 (freshService\<lparr>retryConfig := (retryConfig freshService)\<lparr>maxRetries := 5\<rparr>\<rparr>))
     < baseDelay (retryConfig freshService) * backoffFactor (retryConfig freshService) ^ 4
   \<and> maxDelay (retryConfig freshService)
     < fst (calculateRetryDelay 4 (freshService\<lparr>retryConfig := (retryConfig freshService)\<lparr>maxRetries := 5\<rparr>,
                                               randoms := (\<lambda>n. 1 / 2)\<rparr>))"
  by (simp add: freshService_def calculateRetryDelay_def mathRandom_def backoffDelay_def)


section \<open>Cache lookups\<close>

text \<open>
  C6 (as amended). A lookup of a key that has an entry returns the stored value, and
  leaves the cache as it is, exactly while \<open>now \<le> expiresAt\<close>: the entry is still served
  at the instant \<open>expiresAt\<close> itself. Once \<open>now > expiresAt\<close> the lookup reports absent and
  the entry is removed.
\<close>

theorem getCachedConfig_expiry:
  assumes "map_of (configCache w) exerciseType = Some cached"
  shows "(clock w \<le> expiresAt cached \<longrightarrow>
            getCachedConfig exerciseType w = (Some (cachedData cached), w))
       \<and> (expiresAt cached < clock w \<longrightarrow>
            fst (getCachedConfig exerciseType w) = None
          \<and> map_of (configCache (snd (getCachedConfig exerciseType w))) exerciseType = None)"
  using assms by (simp add: getCachedConfig_def delete_conv)

theorem getCachedConfig_expiry_witness:
  "map_of (configCache (readyService\<lparr>configCache := [(''squat'', squatEntry)], clock := 1800001\<rparr>)) ''squat''
     = Some squatEntry
   \<and> fst (getCachedConfig ''squat'' (readyService\<lparr>configCache := [(''squat'', squatEntry)], clock := 1800001\<rparr>)) = None
   \<and> getCachedConfig ''squat'' (readyService\<lparr>configCache := [(''squat'', squatEntry)], clock := 1799999\<rparr>)
       = (Some (cachedData squatEntry), readyService\<lparr>configCache := [(''squat'', squatEntry)], clock := 1799999\<rparr>)"
  using getCachedConfig_expiry [of "readyService\<lparr>configCache := [(''squat'', squatEntry)], clock := 1800001\<rparr>" "''squat''" squatEntry]
    getCachedConfig_expiry [of "readyService\<lparr>configCache := [(''squat'', squatEntry)], clock := 1799999\<rparr>" "''squat''" squatEntry]
  by (simp add: squatEntry_def)

text \<open>C6 as stated fails at the expiry instant: an entry with \<open>expiresAt = 1800000\<close> read
  at \<open>now = 1800000\<close> is served.\<close>

theorem getCachedConfig_counterexample:
  "expiresAt squatEntry = 1800000
   \<and> fst (getCachedConfig ''squat'' (readyService\<lparr>configCache := [(''squat'', squatEntry)], clock := 1800000\<rparr>))
     = Some (cachedData squatEntry)"
  by (simp add: getCachedConfig_def squatEntry_def)

text \<open>
  C10. When the service has a backend URL and the cache holds an entry for the exercise
  type that has not expired, \<open>getExerciseConfig\<close> returns the cached value and leaves
  the whole world as it was: no network call, nothing queued, no event; the network
  status is not consulted.
\<close>

theorem getExerciseConfig_cache_first:
  assumes "\<not> noBaseUrl w" and "map_of (configCache w) exerciseType = Some cached"
    and "clock w \<le> expiresAt cached"
  shows "getExerciseConfig exerciseType w = (Inr (JObj (cachedData cached)), w)"
  using assms by (simp add: getExerciseConfig_def getCachedConfig_def)

theorem getExerciseConfig_cache_first_witness:
  "\<not> isConnected (networkStatus (offlineService\<lparr>configCache := [(''squat'', squatEntry)], clock := 1000\<rparr>))
   \<and> getExerciseConfig ''squat'' (offlineService\<lparr>configCache := [(''squat'', squatEntry)], clock := 1000\<rparr>)
       = (Inr (JObj [(''exerciseType'', JStr ''squat'')]),
          offlineService\<lparr>configCache := [(''squat'', squatEntry)], clock := 1000\<rparr>)"
  using getExerciseConfig_cache_first [of "offlineService\<lparr>configCache := [(''squat'', squatEntry)], clock := 1000\<rparr>" "''squat''" squatEntry]
  by (simp add: offlineService_def readyService_def freshService_def noBaseUrl_def squatEntry_def lostStatus_def)


section \<open>Calls made while disconnected\<close>

lemma queueRequest_appends:
  "requestQueue (snd (queueRequest d w)) =
     requestQueue w @ [\<lparr>requestId = fst (queueRequest d w), requestData = d,
                        queuedAt = clock w, retryCount = 0\<rparr>]"
  "netCalls (snd (queueRequest d w)) = netCalls w"
  "trace (snd (queueRequest d w)) = trace w"
  by (simp_all add: queueRequest_def mathRandom_def Let_def)

text \<open>
  C1 (as amended). On a service that has a backend URL and whose network status is
  disconnected: \<open>uploadVideo\<close>, \<open>submitSessionSummary\<close> and, when the cache has no live
  entry, \<open>getExerciseConfig\<close> append the request to the offline queue, fail with the
  message that carries the queue identifier, and attempt no network call;
  \<open>analyzeFrame\<close> fails at once and changes nothing: it attempts no network call and
  queues nothing.
\<close>

theorem offline_calls_are_deferred:
  assumes "\<not> noBaseUrl w" and "\<not> isConnected (networkStatus w)"
  shows "fst (uploadVideo videoPath exerciseType w)
           = Inl (Error (queuedMessage (fst (queueRequest (VideoData videoPath exerciseType) w))))
       \<and> requestQueue (snd (uploadVideo videoPath exerciseType w))
           = requestQueue w @ [\<lparr>requestId = fst (queueRequest (VideoData videoPath exerciseType) w),
                requestData = VideoData videoPath exerciseType, queuedAt = clock w, retryCount = 0\<rparr>]
       \<and> netCalls (snd (uploadVideo videoPath exerciseType w)) = netCalls w
       \<and> fst (submitSessionSummary sessionData w)
           = Inl (Error (queuedMessage (fst (queueRequest (SummaryData sessionData) w))))
       \<and> requestQueue (snd (submitSessionSummary sessionData w))
           = requestQueue w @ [\<lparr>requestId = fst (queueRequest (SummaryData sessionData) w),
                requestData = SummaryData sessionData, queuedAt = clock w, retryCount = 0\<rparr>]
       \<and> netCalls (snd (submitSessionSummary sessionData w)) = netCalls w
       \<and> (fst (getCachedConfig exerciseType w) = None \<longrightarrow>
            fst (getExerciseConfig exerciseType w)
              = Inl (Error (queuedMessage (fst (queueRequest (ConfigData exerciseType) w))))
          \<and> requestQueue (snd (getExerciseConfig exerciseType w))
              = requestQueue w @ [\<lparr>requestId = fst (queueRequest (ConfigData exerciseType) w),
                   requestData = ConfigData exerciseType, queuedAt = clock w, retryCount = 0\<rparr>]
          \<and> netCalls (snd (getExerciseConfig exerciseType w)) = netCalls w)
       \<and> analyzeFrame frameData exerciseType w
           = (Inl (Error ''No network connection for real-time analysis''), w)"
proof -
  have up: "uploadVideo videoPath exerciseType w =
      (Inl (Error (queuedMessage (fst (queueRequest (VideoData videoPath exerciseType) w)))),
       snd (queueRequest (VideoData videoPath exerciseType) w))"
    using assms by (simp add: uploadVideo_def split: prod.splits)
  have su: "submitSessionSummary sessionData w =
      (Inl (Error (queuedMessage (fst (queueRequest (SummaryData sessionData) w)))),
       snd (queueRequest (SummaryData sessionData) w))"
    using assms by (simp add: submitSessionSummary_def split: prod.splits)
  have fr: "analyzeFrame frameData exerciseType w
           = (Inl (Error ''No network connection for real-time analysis''), w)"
    using assms by (simp add: analyzeFrame_def)
  have cf: "fst (getExerciseConfig exerciseType w)
              = Inl (Error (queuedMessage (fst (queueRequest (ConfigData exerciseType) w))))
          \<and> requestQueue (snd (getExerciseConfig exerciseType w))
              = requestQueue w @ [\<lparr>requestId = fst (queueRequest (ConfigData exerciseType) w),
                   requestData = ConfigData exerciseType, queuedAt = clock w, retryCount = 0\<rparr>]
          \<and> netCalls (snd (getExerciseConfig exerciseType w)) = netCalls w"
    if miss: "fst (getCachedConfig exerciseType w) = None"
  proof -
    obtain w1 where g: "getCachedConfig exerciseType w = (None, w1)"
      using miss by (cases "getCachedConfig exerciseType w") auto
    have same: "requestQueue w1 = requestQueue w" "netCalls w1 = netCalls w" "clock w1 = clock w"
      "networkStatus w1 = networkStatus w" "randoms w1 = randoms w" "randomDraws w1 = randomDraws w"
      "toString36 w1 = toString36 w"
      using g by (auto simp: getCachedConfig_def split: option.splits if_splits)
    have q: "fst (queueRequest (ConfigData exerciseType) w1) = fst (queueRequest (ConfigData exerciseType) w)"
      using same by (simp add: queueRequest_def mathRandom_def Let_def)
    have "getExerciseConfig exerciseType w =
        (Inl (Error (queuedMessage (fst (queueRequest (ConfigData exerciseType) w1)))),
         snd (queueRequest (ConfigData exerciseType) w1))"
      using assms g same by (simp add: getExerciseConfig_def split: prod.splits)
    then show ?thesis using q same by (simp add: queueRequest_appends)
  qed
  show ?thesis using up su fr cf by (simp add: queueRequest_appends)
qed

theorem offline_calls_are_deferred_witness:
  "\<not> isConnected (networkStatus offlineService)
   \<and> requestQueue (snd (uploadVideo ''clip.mp4'' ''squat'' offlineService))
       = [\<lparr>requestId = ''video_0_'', requestData = VideoData ''clip.mp4'' ''squat'',
           queuedAt = 0, retryCount = 0\<rparr>]
   \<and> netCalls (snd (uploadVideo ''clip.mp4'' ''squat'' offlineService)) = 0
   \<and> requestQueue (snd (getExerciseConfig ''squat'' offlineService))
       = [\<lparr>requestId = ''config_0_'', requestData = ConfigData ''squat'',
           queuedAt = 0, retryCount = 0\<rparr>]
   \<and> requestQueue (snd (submitSessionSummary someSession offlineService))
       = [\<lparr>requestId = ''summary_0_'', requestData = SummaryData someSession,
           queuedAt = 0, retryCount = 0\<rparr>]"
  using offline_calls_are_deferred [where w = offlineService and videoPath = "''clip.mp4''"
      and exerciseType = "''squat''" and frameData = "''frame''" and sessionData = someSession]
  by (simp add: offlineService_def readyService_def freshService_def noBaseUrl_def lostStatus_def
        queueRequest_def mathRandom_def getCachedConfig_def numberToString_def decimal.simps)

text \<open>C1 as stated fails for \<open>analyzeFrame\<close>: called while disconnected, it leaves the
  offline queue empty.\<close>

theorem analyzeFrame_offline_counterexample:
  "\<not> isConnected (networkStatus offlineService)
   \<and> requestQueue offlineService = []
   \<and> requestQueue (snd (analyzeFrame ''frame'' ''squat'' offlineService)) = []"
  by (simp add: analyzeFrame_def offlineService_def readyService_def freshService_def noBaseUrl_def
        lostStatus_def)


section \<open>The retry loop\<close>

lemma retryLoop_cases:
  assumes "retryLoop f m k le w = (r, w')"
  obtains
    (never) "\<not> int k \<le> m" "r = Inl le" "w' = w"
  | (success) v where "int k \<le> m" "attemptOnce f w = (Inr v, w')" "r = Inr v"
  | (undefined) "int k \<le> m" "attemptOnce f w = (Inl Undefined, w')"
      "r = Inl (Error typeErrorMessage)"
  | (fatal) msg where "int k \<le> m" "attemptOnce f w = (Inl (Error msg), w')"
      "isNonRetryableError msg" "r = Inl (Error msg)"
  | (exhausted) msg where "int k = m" "attemptOnce f w = (Inl (Error msg), w')"
      "\<not> isNonRetryableError msg" "r = Inl (Error msg)"
  | (retry) msg w1 where "int k < m" "attemptOnce f w = (Inl (Error msg), w1)"
      "\<not> isNonRetryableError msg"
      "retryLoop f m (Suc k) (Error msg) (afterBackoff k w1) = (r, w')"
  using assms
  by (subst (asm) retryLoop.simps)
     (auto simp: afterBackoff_def split: if_splits prod.splits sum.splits Thrown.splits)

lemma retryLoop_success:
  assumes "attemptOnce f w = (Inr v, w1)" and "int k \<le> m"
  shows "retryLoop f m k le w = (Inr v, w1)"
  using assms by (subst retryLoop.simps) simp

lemma retryLoop_fatal:
  assumes "attemptOnce f w = (Inl (Error msg), w1)" and "int k \<le> m"
    and "isNonRetryableError msg"
  shows "retryLoop f m k le w = (Inl (Error msg), w1)"
  using assms by (subst retryLoop.simps) simp

lemma retryLoop_retry:
  assumes "attemptOnce f w = (Inl (Error msg), w1)" and "int k < m"
    and "\<not> isNonRetryableError msg"
  shows "retryLoop f m k le w = retryLoop f m (Suc k) (Error msg) (afterBackoff k w1)"
  using assms by (subst retryLoop.simps) (simp add: afterBackoff_def split: prod.splits)

lemma retryLoop_exhausted:
  assumes "attemptOnce f w = (Inl (Error msg), w1)" and "int k = m"
    and "\<not> isNonRetryableError msg"
  shows "retryLoop f m k le w = (Inl (Error msg), w1)"
  using assms by (subst retryLoop.simps) simp

lemma no_network_is_retryable: "\<not> isNonRetryableError ''No network connection''"
  by (simp add: isNonRetryableError_def toLowerCase_def lowerChar_def)

lemma backoffWaits_append: "backoffWaits (xs @ ys) = backoffWaits xs @ backoffWaits ys"
  by (induction xs rule: backoffWaits.induct) auto


lemma afterBackoff_fields:
  "networkStatus (afterBackoff k w) = networkStatus w"
  "netCalls (afterBackoff k w) = netCalls w"
  "exchanges (afterBackoff k w) = exchanges w"
  "requestQueue (afterBackoff k w) = requestQueue w"
  "configCache (afterBackoff k w) = configCache w"
  "retryConfig (afterBackoff k w) = retryConfig w"
  "baseUrl (afterBackoff k w) = baseUrl w"
  "trace (afterBackoff k w) = trace w @ [BackoffWait (fst (calculateRetryDelay k w))]"
  by (simp_all add: afterBackoff_def sleep_def calculateRetryDelay_def mathRandom_def)

lemma netExchange_fields:
  "fst (netExchange method url w) = exchanges w (netCalls w)"
  "netCalls (snd (netExchange method url w)) = Suc (netCalls w)"
  "exchanges (snd (netExchange method url w)) = exchanges w"
  "requestQueue (snd (netExchange method url w)) = requestQueue w"
  "configCache (snd (netExchange method url w)) = configCache w"
  "retryConfig (snd (netExchange method url w)) = retryConfig w"
  "baseUrl (snd (netExchange method url w)) = baseUrl w"
  "trace (snd (netExchange method url w)) = trace w @ [NetworkCall method url]"
  "clock (snd (netExchange method url w)) = clock w + int (elapsed (exchanges w (netCalls w)))"
  "networkStatus (snd (netExchange method url w))
     = (if connectionLost (exchanges w (netCalls w)) then lostStatus else networkStatus w)"
  by (simp_all add: netExchange_def Let_def)

lemma retryLoop_waits_bound:
  assumes f: "\<And>w0. backoffWaits (trace (snd (f w0))) = backoffWaits (trace w0)"
  shows "length (backoffWaits (trace (snd (retryLoop f m k le w))))
           \<le> length (backoffWaits (trace w)) + (nat m - k)"
proof (induction "nat (m + 1) - k" arbitrary: k w le)
  case 0
  obtain r w' where run: "retryLoop f m k le w = (r, w')" by (cases "retryLoop f m k le w")
  from run show ?case
  proof (cases rule: retryLoop_cases)
    case never
    then show ?thesis using run by simp
  qed (use 0 in auto)
next
  case (Suc d)
  obtain r w' where run: "retryLoop f m k le w = (r, w')" by (cases "retryLoop f m k le w")
  have att: "backoffWaits (trace (snd (attemptOnce f w))) = backoffWaits (trace w)"
    using f by (simp add: attemptOnce_def)
  from run show ?case
  proof (cases rule: retryLoop_cases)
    case never
    then show ?thesis using run by simp
  next
    case (retry msg w1)
    have "d = nat (m + 1) - Suc k" using Suc.hyps(2) by simp
    from Suc.hyps(1) [OF this, of "Error msg" "afterBackoff k w1"]
    have "length (backoffWaits (trace w'))
        \<le> length (backoffWaits (trace (afterBackoff k w1))) + (nat m - Suc k)"
      using retry(4) by simp
    moreover have "backoffWaits (trace w1) = backoffWaits (trace w)" using att retry(2) by simp
    ultimately show ?thesis using run retry(1)
      by (simp add: afterBackoff_fields backoffWaits_append)
  qed (use att run in auto)
qed

lemma retryLoop_last_failure:
  assumes "retryLoop f m k le w = (Inl (Error msg), w')" and "int k \<le> m"
  shows "\<exists>w0. attemptOnce f w0 = (Inl (Error msg), w') \<or> attemptOnce f w0 = (Inl Undefined, w')"
  using assms
proof (induction "nat (m + 1) - k" arbitrary: k w le)
  case 0
  then show ?case by simp
next
  case (Suc d)
  from Suc.prems(1) show ?case
  proof (cases rule: retryLoop_cases)
    case never
    then show ?thesis using Suc.prems(2) by simp
  next
    case (retry msg' w1)
    have "d = nat (m + 1) - Suc k" using Suc.hyps(2) by simp
    from Suc.hyps(1) [OF this retry(4)] retry(1) show ?thesis by simp
  qed auto
qed

lemma toLowerCase_append: "toLowerCase (a @ b) = toLowerCase a @ toLowerCase b"
  by (simp add: toLowerCase_def)

lemma startsWith_append: "startsWith (p @ s) p"
  by (induction p) auto

lemma strIncludes_middle: "strIncludes (a @ p @ b) p"
proof (induction a)
  case Nil
  show ?case using startsWith_append [of p b] by (cases "p @ b") auto
next
  case (Cons c a)
  then show ?case by simp
qed

lemma isNonRetryableError_patterns:
  "isNonRetryableError msg =
     (\<exists>p \<in> set [''401'', ''unauthorized'', ''400'', ''bad request'', ''404'', ''not found'',
                 ''413'', ''payload too large'']. strIncludes (toLowerCase msg) p)"
  by (auto simp: isNonRetryableError_def Let_def)

lemma status_is_fatal:
  assumes "status \<in> {400, 401, 404, 413}"
  shows "isNonRetryableError (pre @ decimal status @ post)"
proof -
  have cases: "status = 400 \<or> status = 401 \<or> status = 404 \<or> status = 413"
    using assms by auto
  have "toLowerCase (decimal status) = decimal status"
    using cases by (elim disjE) (simp_all add: decimal.simps toLowerCase_def lowerChar_def)
  then have "strIncludes (toLowerCase (pre @ decimal status @ post)) (decimal status)"
    by (simp add: toLowerCase_append strIncludes_middle)
  moreover have "decimal status \<in> {''400'', ''401'', ''404'', ''413''}"
    using cases by (elim disjE) (simp_all add: decimal.simps)
  ultimately show ?thesis unfolding isNonRetryableError_patterns by auto
qed

lemma word_is_fatal:
  assumes "toLowerCase word \<in> {''unauthorized'', ''bad request'', ''not found'', ''payload too large''}"
  shows "isNonRetryableError (pre @ word @ post)"
proof -
  have "strIncludes (toLowerCase (pre @ word @ post)) (toLowerCase word)"
    by (simp add: toLowerCase_append strIncludes_middle)
  then show ?thesis using assms unfolding isNonRetryableError_patterns by auto
qed

lemma fatal_status_propagates:
  assumes "attemptOnce f w = (Inl (Error (pre @ decimal status @ post)), w1)" and "int k \<le> m"
    and "status \<in> {400, 401, 404, 413}"
  shows "retryLoop f m k le w = (Inl (Error (pre @ decimal status @ post)), w1)"
  using retryLoop_fatal [OF assms(1,2) status_is_fatal [OF assms(3)]] .

lemma uploadVideoRequest_failure:
  assumes "replyStatus (exchanges w (netCalls w)) = Some status" and "\<not> responseOk status"
  shows "uploadVideoRequest videoPath exerciseType w
     = (Inl (Error (''Upload failed with status '' @ decimal status)),
        snd (netExchange ''POST'' (urlBase w @ ''/api/analyze-video'') w))"
  using assms
  by (auto simp: uploadVideoRequest_def replyStatus_def netExchange_def Let_def
        split: NetOutcome.splits prod.splits)

lemma submitSessionSummaryRequest_failure:
  assumes "outcome (exchanges w (netCalls w)) = Replied status statusText body"
    and "\<not> responseOk status"
  shows "submitSessionSummaryRequest sessionData w
     = (Inl (Error (''Session summary failed: '' @ decimal status @ '' '' @ statusText)),
        snd (netExchange ''POST'' (urlBase w @ ''/api/session-summary'') w))"
  using assms
  by (auto simp: submitSessionSummaryRequest_def netExchange_def Let_def
        split: NetOutcome.splits prod.splits)

lemma fatal_status_not_ok: "status \<in> {400, 401, 404, 413} \<Longrightarrow> \<not> responseOk status"
  by (auto simp: responseOk_def)

lemma uploadVideo_fatal_status:
  assumes "\<not> noBaseUrl w" and "isConnected (networkStatus w)"
    and "replyStatus (exchanges w (netCalls w)) = Some status"
    and "status \<in> {400, 401, 404, 413}" and "0 \<le> maxRetries (retryConfig w)"
  shows "uploadVideo videoPath exerciseType w
     = (Inl (Error (''Upload failed with status '' @ decimal status)),
        snd (netExchange ''POST'' (urlBase w @ ''/api/analyze-video'') w))"
proof -
  have "attemptOnce (uploadVideoRequest videoPath exerciseType) w
     = (Inl (Error (''Upload failed with status '' @ decimal status @ [])),
        snd (netExchange ''POST'' (urlBase w @ ''/api/analyze-video'') w))"
    using uploadVideoRequest_failure [OF assms(3) fatal_status_not_ok [OF assms(4)]] assms(2)
    by (simp add: attemptOnce_def)
  from fatal_status_propagates [OF this _ assms(4), of 0 "maxRetries (retryConfig w)" Undefined]
  show ?thesis using assms(1,2,5) by (simp add: uploadVideo_def executeWithRetry_def)
qed

lemma submitSessionSummary_fatal_status:
  assumes "\<not> noBaseUrl w" and "isConnected (networkStatus w)"
    and "outcome (exchanges w (netCalls w)) = Replied status statusText body"
    and "status \<in> {400, 401, 404, 413}" and "0 \<le> maxRetries (retryConfig w)"
  shows "submitSessionSummary sessionData w
     = (Inl (Error (''Session summary failed: '' @ decimal status @ '' '' @ statusText)),
        snd (netExchange ''POST'' (urlBase w @ ''/api/session-summary'') w))"
proof -
  have "attemptOnce (submitSessionSummaryRequest sessionData) w
     = (Inl (Error (''Session summary failed: '' @ decimal status @ '' '' @ statusText)),
        snd (netExchange ''POST'' (urlBase w @ ''/api/session-summary'') w))"
    using submitSessionSummaryRequest_failure [OF assms(3) fatal_status_not_ok [OF assms(4)]] assms(2)
    by (simp add: attemptOnce_def)
  from fatal_status_propagates [OF this _ assms(4), of 0 "maxRetries (retryConfig w)" Undefined]
  show ?thesis using assms(1,2,5) by (simp add: submitSessionSummary_def executeWithRetry_def)
qed

lemma other_statuses_are_retryable:
  assumes "status \<in> {403, 408, 422, 429, 500, 502, 503, 504}"
  shows "\<not> isNonRetryableError (''Upload failed with status '' @ decimal status)"
proof -
  have "status = 403 \<or> status = 408 \<or> status = 422 \<or> status = 429 \<or> status = 500
      \<or> status = 502 \<or> status = 503 \<or> status = 504"
    using assms by auto
  then show ?thesis
    by (elim disjE) (simp_all add: isNonRetryableError_def toLowerCase_def lowerChar_def decimal.simps)
qed

text \<open>
  C8. In the loop of \<open>executeWithRetry\<close> (which starts it at attempt 0), at any attempt
  \<open>k\<close> within the limit \<open>m\<close>: when the attempt fails with an error that
  \<open>isNonRetryableError\<close> classifies as non-retryable, the loop ends with that error and
  with the world exactly as the failed attempt left it (no wait, no further attempt);
  when it fails with any other error and \<open>k < m\<close>, the loop waits the backoff delay and
  goes on with attempt \<open>k + 1\<close>; when it fails with any other error at the ceiling
  \<open>k = m\<close>, the loop ends with that last error. Over a whole call: there are at most \<open>m\<close>
  backoff waits (for an operation that does not wait itself), and an error that the call
  propagates is the failure of the last attempt made, the world being as that attempt
  left it.

  The non-retryable failures are exactly those whose message, in lower case, contains
  one of \<open>401\<close>, \<open>unauthorized\<close>, \<open>400\<close>, \<open>bad request\<close>, \<open>404\<close>, \<open>not found\<close>, \<open>413\<close>,
  \<open>payload too large\<close>. So a message that carries the status 400, 401, 404 or 413 in
  decimal, or one of the four phrases in any case, is non-retryable, and an attempt
  failing with it ends the loop at once. In particular an upload, or a session summary,
  whose first network call is answered with 400, 401, 404 or 413 fails with the message
  of that reply in the world right after that one network call: no further attempt and
  no wait. The messages of an upload answered with 403, 408, 422, 429, 500, 502, 503 or
  504 are retryable.
\<close>

theorem retryLoop_error_classification:
  "(attemptOnce f w = (Inl (Error msg), w1) \<and> int k \<le> m \<and> isNonRetryableError msg \<longrightarrow>
      retryLoop f m k le w = (Inl (Error msg), w1))
   \<and> (attemptOnce f w = (Inl (Error msg), w1) \<and> int k < m \<and> \<not> isNonRetryableError msg \<longrightarrow>
      retryLoop f m k le w = retryLoop f m (Suc k) (Error msg) (afterBackoff k w1))
   \<and> (attemptOnce f w = (Inl (Error msg), w1) \<and> int k = m \<and> \<not> isNonRetryableError msg \<longrightarrow>
      retryLoop f m k le w = (Inl (Error msg), w1))
   \<and> executeWithRetry f m w = retryLoop f m 0 Undefined w
   \<and> ((\<forall>w0. backoffWaits (trace (snd (f w0))) = backoffWaits (trace w0)) \<longrightarrow>
        length (backoffWaits (trace (snd (executeWithRetry f m w))))
          \<le> length (backoffWaits (trace w)) + nat m)
   \<and> (0 \<le> m \<and> executeWithRetry f m w = (Inl (Error msg), w') \<longrightarrow>
        (\<exists>w0. attemptOnce f w0 = (Inl (Error msg), w') \<or> attemptOnce f w0 = (Inl Undefined, w')))
   \<and> isNonRetryableError msg =
        (\<exists>p \<in> set [''401'', ''unauthorized'', ''400'', ''bad request'', ''404'', ''not found'',
                    ''413'', ''payload too large'']. strIncludes (toLowerCase msg) p)
   \<and> (status \<in> {400, 401, 404, 413} \<longrightarrow> isNonRetryableError (pre @ decimal status @ post))
   \<and> (toLowerCase word \<in> {''unauthorized'', ''bad request'', ''not found'', ''payload too large''} \<longrightarrow>
        isNonRetryableError (pre @ word @ post))
   \<and> (attemptOnce f w = (Inl (Error (pre @ decimal status @ post)), w1) \<and> int k \<le> m
        \<and> status \<in> {400, 401, 404, 413} \<longrightarrow>
      retryLoop f m k le w = (Inl (Error (pre @ decimal status @ post)), w1))
   \<and> (\<not> noBaseUrl w \<and> isConnected (networkStatus w)
        \<and> replyStatus (exchanges w (netCalls w)) = Some status \<and> status \<in> {400, 401, 404, 413}
        \<and> 0 \<le> maxRetries (retryConfig w) \<longrightarrow>
      uploadVideo videoPath exerciseType w
        = (Inl (Error (''Upload failed with status '' @ decimal status)),
           snd (netExchange ''POST'' (urlBase w @ ''/api/analyze-video'') w)))
   \<and> (\<not> noBaseUrl w \<and> isConnected (networkStatus w)
        \<and> outcome (exchanges w (netCalls w)) = Replied status statusText body
        \<and> status \<in> {400, 401, 404, 413} \<and> 0 \<le> maxRetries (retryConfig w) \<longrightarrow>
      submitSessionSummary sessionData w
        = (Inl (Error (''Session summary failed: '' @ decimal status @ '' '' @ statusText)),
           snd (netExchange ''POST'' (urlBase w @ ''/api/session-summary'') w)))
   \<and> (status \<in> {403, 408, 422, 429, 500, 502, 503, 504} \<longrightarrow>
        \<not> isNonRetryableError (''Upload failed with status '' @ decimal status))"
proof -
  have c1: "(attemptOnce f w = (Inl (Error msg), w1) \<and> int k \<le> m \<and> isNonRetryableError msg \<longrightarrow>
        retryLoop f m k le w = (Inl (Error msg), w1))"
    using retryLoop_fatal [of f w msg w1 k m le] by simp
  have c2: "(attemptOnce f w = (Inl (Error msg), w1) \<and> int k < m \<and> \<not> isNonRetryableError msg \<longrightarrow>
        retryLoop f m k le w = retryLoop f m (Suc k) (Error msg) (afterBackoff k w1))"
    using retryLoop_retry [of f w msg w1 k m le] by simp
  have c3: "(attemptOnce f w = (Inl (Error msg), w1) \<and> int k = m \<and> \<not> isNonRetryableError msg \<longrightarrow>
        retryLoop f m k le w = (Inl (Error msg), w1))"
    using retryLoop_exhausted [of f w msg w1 k m le] by simp
  have c4: "executeWithRetry f m w = retryLoop f m 0 Undefined w"
    by (simp add: executeWithRetry_def)
  have c5: "((\<forall>w0. backoffWaits (trace (snd (f w0))) = backoffWaits (trace w0)) \<longrightarrow>
          length (backoffWaits (trace (snd (executeWithRetry f m w))))
            \<le> length (backoffWaits (trace w)) + nat m)"
    using retryLoop_waits_bound [of f m 0 Undefined w] by (simp add: executeWithRetry_def)
  have c6: "(0 \<le> m \<and> executeWithRetry f m w = (Inl (Error msg), w') \<longrightarrow>
          (\<exists>w0. attemptOnce f w0 = (Inl (Error msg), w') \<or> attemptOnce f w0 = (Inl Undefined, w')))"
    using retryLoop_last_failure [of f m 0 Undefined w msg w'] by (simp add: executeWithRetry_def)
  have c7: "isNonRetryableError msg =
          (\<exists>p \<in> set [''401'', ''unauthorized'', ''400'', ''bad request'', ''404'', ''not found'',
                      ''413'', ''payload too large'']. strIncludes (toLowerCase msg) p)"
    by (rule isNonRetryableError_patterns)
  have c8: "(status \<in> {400, 401, 404, 413} \<longrightarrow> isNonRetryableError (pre @ decimal status @ post))"
    using status_is_fatal [of status pre post] by simp
  have c9: "(toLowerCase word \<in> {''unauthorized'', ''bad request'', ''not found'', ''payload too large''} \<longrightarrow>
          isNonRetryableError (pre @ word @ post))"
    using word_is_fatal [of word pre post] by simp
  have c10: "(attemptOnce f w = (Inl (Error (pre @ decimal status @ post)), w1) \<and> int k \<le> m
          \<and> status \<in> {400, 401, 404, 413} \<longrightarrow>
        retryLoop f m k le w = (Inl (Error (pre @ decimal status @ post)), w1))"
    using fatal_status_propagates [of f w pre status post w1 k m le] by simp
  have c11: "(\<not> noBaseUrl w \<and> isConnected (networkStatus w)
          \<and> replyStatus (exchanges w (netCalls w)) = Some status \<and> status \<in> {400, 401, 404, 413}
          \<and> 0 \<le> maxRetries (retryConfig w) \<longrightarrow>
        uploadVideo videoPath exerciseType w
          = (Inl (Error (''Upload failed with status '' @ decimal status)),
             snd (netExchange ''POST'' (urlBase w @ ''/api/analyze-video'') w)))"
    using uploadVideo_fatal_status [of w status videoPath exerciseType] by simp
  have c12: "(\<not> noBaseUrl w \<and> isConnected (networkStatus w)
          \<and> outcome (exchanges w (netCalls w)) = Replied status statusText body
          \<and> status \<in> {400, 401, 404, 413} \<and> 0 \<le> maxRetries (retryConfig w) \<longrightarrow>
        submitSessionSummary sessionData w
          = (Inl (Error (''Session summary failed: '' @ decimal status @ '' '' @ statusText)),
             snd (netExchange ''POST'' (urlBase w @ ''/api/session-summary'') w)))"
    using submitSessionSummary_fatal_status [of w status statusText body sessionData] by simp
  have c13: "(status \<in> {403, 408, 422, 429, 500, 502, 503, 504} \<longrightarrow>
          \<not> isNonRetryableError (''Upload failed with status '' @ decimal status))"
    using other_statuses_are_retryable [of status] by simp
  show ?thesis
    using c1 c2 c3 c4 c5 c6 c7 c8 c9 c10 c11 c12 c13
    by (intro conjI)
qed

lemma not_found_is_fatal: "isNonRetryableError ''Upload failed with status 404''"
  by (simp add: isNonRetryableError_def toLowerCase_def lowerChar_def)

lemma upload_error_is_retryable: "\<not> isNonRetryableError ''Network error during upload''"
  by (simp add: isNonRetryableError_def toLowerCase_def lowerChar_def)

lemma attempt_not_found:
  "attemptOnce (uploadVideoRequest ''clip.mp4'' ''squat'') notFoundService
     = (Inl (Error ''Upload failed with status 404''),
        notFoundService\<lparr>netCalls := 1, clock := 20,
          trace := [NetworkCall ''POST'' ''http://10.0.2.2:8000/api/analyze-video'']\<rparr>)"
  by (simp add: attemptOnce_def uploadVideoRequest_def netExchange_def Let_def notFoundService_def
        readyService_def freshService_def urlBase_def replyWith_def responseOk_def decimal.simps)

lemmas run_defs = attemptOnce_def uploadVideoRequest_def netExchange_def Let_def
  readyService_def freshService_def urlBase_def calculateRetryDelay_def mathRandom_def
  backoffDelay_def sleep_def lostStatus_def offlineService_def

lemma failing_upload_run:
  "executeWithRetry (uploadVideoRequest ''clip.mp4'' ''squat'') 3 readyService
     = (Inl (Error ''Network error during upload''),
        readyService\<lparr>netCalls := 4, randomDraws := 3, clock := 7000,
          trace := [NetworkCall ''POST'' ''http://10.0.2.2:8000/api/analyze-video'', BackoffWait 1000,
                    NetworkCall ''POST'' ''http://10.0.2.2:8000/api/analyze-video'', BackoffWait 2000,
                    NetworkCall ''POST'' ''http://10.0.2.2:8000/api/analyze-video'', BackoffWait 4000,
                    NetworkCall ''POST'' ''http://10.0.2.2:8000/api/analyze-video'']\<rparr>)"
  unfolding executeWithRetry_def
  apply (subst retryLoop.simps, simp add: run_defs upload_error_is_retryable)
  apply (subst retryLoop.simps, simp add: run_defs upload_error_is_retryable)
  apply (subst retryLoop.simps, simp add: run_defs upload_error_is_retryable)
  apply (subst retryLoop.simps, simp add: run_defs upload_error_is_retryable)
  done

text \<open>
  An upload answered with 404 fails after one network call and no wait, and so does an
  upload answered with 401, with 400 or with 413, and a session summary answered with
  413; an upload whose every call fails at the transport is tried four times (limit 3),
  with three waits, and fails with the last error. A classifier that looked for \<open>404\<close>
  alone would retry the other three.
\<close>

theorem retryLoop_error_classification_witness:
  "isNonRetryableError ''Upload failed with status 404''
   \<and> executeWithRetry (uploadVideoRequest ''clip.mp4'' ''squat'') 3 notFoundService
     = (Inl (Error ''Upload failed with status 404''),
        notFoundService\<lparr>netCalls := 1, clock := 20,
          trace := [NetworkCall ''POST'' ''http://10.0.2.2:8000/api/analyze-video'']\<rparr>)
   \<and> \<not> isNonRetryableError ''Network error during upload''
   \<and> fst (executeWithRetry (uploadVideoRequest ''clip.mp4'' ''squat'') 3 readyService)
     = Inl (Error ''Network error during upload'')
   \<and> netCalls (snd (executeWithRetry (uploadVideoRequest ''clip.mp4'' ''squat'') 3 readyService)) = 4
   \<and> backoffWaits (trace (snd (executeWithRetry (uploadVideoRequest ''clip.mp4'' ''squat'') 3 readyService)))
     = [1000, 2000, 4000]
   \<and> uploadVideo ''clip.mp4'' ''squat'' (statusService 401 ''Unauthorized'')
     = (Inl (Error ''Upload failed with status 401''),
        (statusService 401 ''Unauthorized'')\<lparr>netCalls := 1, clock := 20,
          trace := [NetworkCall ''POST'' ''http://10.0.2.2:8000/api/analyze-video'']\<rparr>)
   \<and> uploadVideo ''clip.mp4'' ''squat'' (statusService 400 ''Bad Request'')
     = (Inl (Error ''Upload failed with status 400''),
        (statusService 400 ''Bad Request'')\<lparr>netCalls := 1, clock := 20,
          trace := [NetworkCall ''POST'' ''http://10.0.2.2:8000/api/analyze-video'']\<rparr>)
   \<and> uploadVideo ''clip.mp4'' ''squat'' (statusService 413 ''Payload Too Large'')
     = (Inl (Error ''Upload failed with status 413''),
        (statusService 413 ''Payload Too Large'')\<lparr>netCalls := 1, clock := 20,
          trace := [NetworkCall ''POST'' ''http://10.0.2.2:8000/api/analyze-video'']\<rparr>)
   \<and> submitSessionSummary someSession (statusService 413 ''Payload Too Large'')
     = (Inl (Error ''Session summary failed: 413 Payload Too Large''),
        (statusService 413 ''Payload Too Large'')\<lparr>netCalls := 1, clock := 20,
          trace := [NetworkCall ''POST'' ''http://10.0.2.2:8000/api/session-summary'']\<rparr>)
   \<and> \<not> strIncludes (toLowerCase ''Upload failed with status 401'') ''404''
   \<and> \<not> isNonRetryableError ''Upload failed with status 500''
   \<and> \<not> isNonRetryableError ''Upload failed with status 403''"
proof -
  have old: "isNonRetryableError ''Upload failed with status 404''
   \<and> executeWithRetry (uploadVideoRequest ''clip.mp4'' ''squat'') 3 notFoundService
     = (Inl (Error ''Upload failed with status 404''),
        notFoundService\<lparr>netCalls := 1, clock := 20,
          trace := [NetworkCall ''POST'' ''http://10.0.2.2:8000/api/analyze-video'']\<rparr>)"
    using retryLoop_error_classification [where f = "uploadVideoRequest ''clip.mp4'' ''squat''" and w = notFoundService
        and msg = "''Upload failed with status 404''"
        and ?w1.0 = "notFoundService\<lparr>netCalls := 1, clock := 20,
          trace := [NetworkCall ''POST'' ''http://10.0.2.2:8000/api/analyze-video'']\<rparr>"
        and k = 0 and m = 3 and le = Undefined, THEN conjunct1]
      attempt_not_found not_found_is_fatal
    by (simp add: executeWithRetry_def)
  have u401: "uploadVideo ''clip.mp4'' ''squat'' (statusService 401 ''Unauthorized'')
       = (Inl (Error ''Upload failed with status 401''),
          (statusService 401 ''Unauthorized'')\<lparr>netCalls := 1, clock := 20,
            trace := [NetworkCall ''POST'' ''http://10.0.2.2:8000/api/analyze-video'']\<rparr>)"
    using retryLoop_error_classification [where w = "statusService 401 ''Unauthorized''" and status = 401
        and videoPath = "''clip.mp4''" and exerciseType = "''squat''",
        THEN conjunct2, THEN conjunct2, THEN conjunct2, THEN conjunct2, THEN conjunct2,
        THEN conjunct2, THEN conjunct2, THEN conjunct2, THEN conjunct2, THEN conjunct2,
        THEN conjunct1]
    by (simp add: statusService_def readyService_def freshService_def noBaseUrl_def replyStatus_def
          replyWith_def netExchange_def Let_def urlBase_def decimal.simps)
  have u400: "uploadVideo ''clip.mp4'' ''squat'' (statusService 400 ''Bad Request'')
       = (Inl (Error ''Upload failed with status 400''),
          (statusService 400 ''Bad Request'')\<lparr>netCalls := 1, clock := 20,
            trace := [NetworkCall ''POST'' ''http://10.0.2.2:8000/api/analyze-video'']\<rparr>)"
    using retryLoop_error_classification [where w = "statusService 400 ''Bad Request''" and status = 400
        and videoPath = "''clip.mp4''" and exerciseType = "''squat''",
        THEN conjunct2, THEN conjunct2, THEN conjunct2, THEN conjunct2, THEN conjunct2,
        THEN conjunct2, THEN conjunct2, THEN conjunct2, THEN conjunct2, THEN conjunct2,
        THEN conjunct1]
    by (simp add: statusService_def readyService_def freshService_def noBaseUrl_def replyStatus_def
          replyWith_def netExchange_def Let_def urlBase_def decimal.simps)
  have u413: "uploadVideo ''clip.mp4'' ''squat'' (statusService 413 ''Payload Too Large'')
       = (Inl (Error ''Upload failed with status 413''),
          (statusService 413 ''Payload Too Large'')\<lparr>netCalls := 1, clock := 20,
            trace := [NetworkCall ''POST'' ''http://10.0.2.2:8000/api/analyze-video'']\<rparr>)"
    using retryLoop_error_classification [where w = "statusService 413 ''Payload Too Large''" and status = 413
        and videoPath = "''clip.mp4''" and exerciseType = "''squat''",
        THEN conjunct2, THEN conjunct2, THEN conjunct2, THEN conjunct2, THEN conjunct2,
        THEN conjunct2, THEN conjunct2, THEN conjunct2, THEN conjunct2, THEN conjunct2,
        THEN conjunct1]
    by (simp add: statusService_def readyService_def freshService_def noBaseUrl_def replyStatus_def
          replyWith_def netExchange_def Let_def urlBase_def decimal.simps)
  have s413: "submitSessionSummary someSession (statusService 413 ''Payload Too Large'')
       = (Inl (Error ''Session summary failed: 413 Payload Too Large''),
          (statusService 413 ''Payload Too Large'')\<lparr>netCalls := 1, clock := 20,
            trace := [NetworkCall ''POST'' ''http://10.0.2.2:8000/api/session-summary'']\<rparr>)"
    using retryLoop_error_classification [where w = "statusService 413 ''Payload Too Large''" and status = 413
        and statusText = "''Payload Too Large''" and body = "JsonFails ''Unexpected end of input''"
        and sessionData = someSession,
        THEN conjunct2, THEN conjunct2, THEN conjunct2, THEN conjunct2, THEN conjunct2,
        THEN conjunct2, THEN conjunct2, THEN conjunct2, THEN conjunct2, THEN conjunct2,
        THEN conjunct2, THEN conjunct1]
    by (simp add: statusService_def readyService_def freshService_def noBaseUrl_def
          replyWith_def netExchange_def Let_def urlBase_def decimal.simps)
  have other: "\<not> isNonRetryableError ''Upload failed with status 500''"
    "\<not> isNonRetryableError ''Upload failed with status 403''"
    using retryLoop_error_classification [where status = 500, THEN conjunct2, THEN conjunct2, THEN conjunct2, THEN conjunct2, THEN conjunct2,
        THEN conjunct2, THEN conjunct2, THEN conjunct2, THEN conjunct2, THEN conjunct2,
        THEN conjunct2, THEN conjunct2]
      retryLoop_error_classification [where status = 403, THEN conjunct2, THEN conjunct2, THEN conjunct2, THEN conjunct2, THEN conjunct2,
        THEN conjunct2, THEN conjunct2, THEN conjunct2, THEN conjunct2, THEN conjunct2,
        THEN conjunct2, THEN conjunct2]
    by (simp_all add: decimal.simps)
  have only404: "\<not> strIncludes (toLowerCase ''Upload failed with status 401'') ''404''"
    by (simp add: toLowerCase_def lowerChar_def)
  show ?thesis
    using old u401 u400 u413 s413 other only404 upload_error_is_retryable
    by (simp add: failing_upload_run)
qed



section \<open>The retry loop while disconnected\<close>

lemma retryLoop_disconnected:
  assumes "\<not> isConnected (networkStatus w)" and "int k \<le> m"
  shows "\<exists>w'. retryLoop f m k le w = (Inl (Error ''No network connection''), w')
            \<and> netCalls w' = netCalls w
            \<and> length (backoffWaits (trace w')) = length (backoffWaits (trace w)) + (nat m - k)
            \<and> (\<forall>g le'. retryLoop g m k le' w = retryLoop f m k le w)"
  using assms
proof (induction "nat m - k" arbitrary: k w le)
  case 0
  then have km: "int k = m" by simp
  have att: "attemptOnce h w = (Inl (Error ''No network connection''), w)"
    for h :: "World \<Rightarrow> (Thrown + 'a) \<times> World"
    using "0.prems" by (simp add: attemptOnce_def)
  have "retryLoop h m k l w = (Inl (Error ''No network connection''), w)"
    for h :: "World \<Rightarrow> (Thrown + 'a) \<times> World" and l
    using retryLoop_exhausted [OF att [of h] km no_network_is_retryable] .
  then show ?case using km by simp
next
  case (Suc n)
  then have km: "int k < m" by linarith
  have att: "attemptOnce h w = (Inl (Error ''No network connection''), w)"
    for h :: "World \<Rightarrow> (Thrown + 'a) \<times> World"
    using Suc.prems by (simp add: attemptOnce_def)
  have step: "retryLoop h m k l w
      = retryLoop h m (Suc k) (Error ''No network connection'') (afterBackoff k w)"
    for h :: "World \<Rightarrow> (Thrown + 'a) \<times> World" and l
    using retryLoop_retry [OF att [of h] km no_network_is_retryable] .
  have "n = nat m - Suc k" using Suc.hyps(2) by simp
  moreover have "\<not> isConnected (networkStatus (afterBackoff k w))"
    using Suc.prems by (simp add: afterBackoff_fields)
  moreover have "int (Suc k) \<le> m" using km by simp
  ultimately obtain w' where
    w': "retryLoop f m (Suc k) (Error ''No network connection'') (afterBackoff k w)
           = (Inl (Error ''No network connection''), w')"
      "netCalls w' = netCalls (afterBackoff k w)"
      "length (backoffWaits (trace w'))
         = length (backoffWaits (trace (afterBackoff k w))) + (nat m - Suc k)"
      "\<forall>g le'. retryLoop g m (Suc k) le' (afterBackoff k w)
           = retryLoop f m (Suc k) (Error ''No network connection'') (afterBackoff k w)"
    using Suc.hyps(1) [of "Suc k" "afterBackoff k w" "Error ''No network connection''"] by blast
  have len: "length (backoffWaits (trace w')) = length (backoffWaits (trace w)) + (nat m - k)"
    using w'(3) km by (simp add: afterBackoff_fields backoffWaits_append)
  have "retryLoop g m k le' w = retryLoop f m k le w" for g le'
    using step [of g le'] step [of f le] w'(4) by simp
  then show ?case using step [of f le] w' len by (simp add: afterBackoff_fields)
qed

text \<open>
  C3 (as amended). Before each attempt the network status is checked, and while it
  reports disconnected the attempt does not call the operation: it fails with
  \<open>No network connection\<close>. That failure is retryable and is handled like any other
  retryable failure: it uses up a retry and is followed by a backoff wait. When the
  status stays disconnected, a call with limit \<open>m \<ge> 0\<close> therefore fails with
  \<open>No network connection\<close> only after \<open>m\<close> backoff waits, having made no network call and
  never having called the operation (the run is the same for every operation).
\<close>

theorem executeWithRetry_disconnected:
  assumes "\<not> isConnected (networkStatus w)" and "0 \<le> m"
  shows "attemptOnce f w = (Inl (Error ''No network connection''), w)
       \<and> \<not> isNonRetryableError ''No network connection''
       \<and> fst (executeWithRetry f m w) = Inl (Error ''No network connection'')
       \<and> netCalls (snd (executeWithRetry f m w)) = netCalls w
       \<and> length (backoffWaits (trace (snd (executeWithRetry f m w))))
           = length (backoffWaits (trace w)) + nat m
       \<and> executeWithRetry g m w = executeWithRetry f m w"
proof -
  obtain w' where
    "retryLoop f m 0 Undefined w = (Inl (Error ''No network connection''), w')"
    "netCalls w' = netCalls w"
    "length (backoffWaits (trace w')) = length (backoffWaits (trace w)) + (nat m - 0)"
    "\<forall>g le'. retryLoop g m 0 le' w = retryLoop f m 0 Undefined w"
    using retryLoop_disconnected [OF assms(1), of 0 m f Undefined] assms(2) by auto
  then show ?thesis
    using assms(1) no_network_is_retryable by (simp add: executeWithRetry_def attemptOnce_def)
qed

theorem executeWithRetry_disconnected_witness:
  "\<not> isConnected (networkStatus offlineService)
   \<and> fst (executeWithRetry (uploadVideoRequest ''clip.mp4'' ''squat'') 3 offlineService)
       = Inl (Error ''No network connection'')
   \<and> netCalls (snd (executeWithRetry (uploadVideoRequest ''clip.mp4'' ''squat'') 3 offlineService)) = 0
   \<and> length (backoffWaits (trace (snd (executeWithRetry (uploadVideoRequest ''clip.mp4'' ''squat'') 3
        offlineService)))) = 3
   \<and> executeWithRetry (submitSessionSummaryRequest someSession) 3 offlineService
       = executeWithRetry (uploadVideoRequest ''clip.mp4'' ''squat'') 3 offlineService"
  using executeWithRetry_disconnected [of offlineService 3 "uploadVideoRequest ''clip.mp4'' ''squat''"
      "submitSessionSummaryRequest someSession"]
  by (simp add: offlineService_def readyService_def freshService_def lostStatus_def)

lemma offline_run:
  "executeWithRetry (uploadVideoRequest ''clip.mp4'' ''squat'') 3 offlineService
     = (Inl (Error ''No network connection''),
        offlineService\<lparr>randomDraws := 3, clock := 7000,
           trace := [BackoffWait 1000, BackoffWait 2000, BackoffWait 4000]\<rparr>)"
  unfolding executeWithRetry_def
  apply (subst retryLoop.simps, simp add: run_defs no_network_is_retryable)
  apply (subst retryLoop.simps, simp add: run_defs no_network_is_retryable)
  apply (subst retryLoop.simps, simp add: run_defs no_network_is_retryable)
  apply (subst retryLoop.simps, simp add: run_defs no_network_is_retryable)
  done

lemma offline_health_run:
  "checkBackendHealth discover offlineService
     = (False, offlineService\<lparr>randomDraws := 1, clock := 1000, trace := [BackoffWait 1000]\<rparr>)"
  unfolding checkBackendHealth_def executeWithRetry_def
  apply (subst retryLoop.simps, simp add: run_defs no_network_is_retryable noBaseUrl_def)
  apply (subst retryLoop.simps, simp add: run_defs no_network_is_retryable noBaseUrl_def)
  done

text \<open>
  C3 as stated fails: with the default limit 3 and the status disconnected from the
  start, the call does not fail at once. It waits 1000, 2000 and 4000 ms (all three
  retries are used, the clock has advanced by 7000 ms) before it fails. So does a
  health check made while disconnected: it uses its one retry and returns after a wait
  of 1000 ms.
\<close>

theorem executeWithRetry_disconnected_counterexample:
  "\<not> isConnected (networkStatus offlineService)
   \<and> backoffWaits (trace (snd (executeWithRetry (uploadVideoRequest ''clip.mp4'' ''squat'') 3
        offlineService))) = [1000, 2000, 4000]
   \<and> clock (snd (executeWithRetry (uploadVideoRequest ''clip.mp4'' ''squat'') 3 offlineService))
       = clock offlineService + 7000
   \<and> backoffWaits (trace (snd (checkBackendHealth (\<lambda>w. (Inr None, w)) offlineService))) = [1000]"
  by (simp add: offline_run offline_health_run)
     (simp add: offlineService_def readyService_def freshService_def lostStatus_def)


section \<open>Frame analysis degrades to synthetic data\<close>

lemma analyzeFrameRequest_effect:
  assumes "analyzeFrameRequest frameData exerciseType w = (r, w1)"
  shows "netCalls w1 = Suc (netCalls w)" and "exchanges w1 = exchanges w"
    and "backoffWaits (trace w1) = backoffWaits (trace w)"
    and "replyStatus (exchanges w (netCalls w)) = Some status \<Longrightarrow> status \<in> {401, 403, 422, 500}
         \<Longrightarrow> r = Inr (getFallbackPoseData w1 exerciseType (clock w1) (clock w1))"
proof -
  let ?url = "urlBase w @ ''/api/analyze-frame''"
  obtain x w0 where ex: "netExchange ''POST'' ?url w = (x, w0)"
    by (cases "netExchange ''POST'' ?url w")
  have x: "x = exchanges w (netCalls w)" and w0: "w0 = snd (netExchange ''POST'' ?url w)"
    using ex netExchange_fields(1) [of "''POST''" ?url w] by auto
  have w1: "w1 = w0"
    using assms ex
    by (auto simp: analyzeFrameRequest_def split: NetOutcome.splits if_splits sum.splits)
  show "netCalls w1 = Suc (netCalls w)" "exchanges w1 = exchanges w"
    "backoffWaits (trace w1) = backoffWaits (trace w)"
    using w1 w0 by (simp_all add: netExchange_fields backoffWaits_append)
  show "r = Inr (getFallbackPoseData w1 exerciseType (clock w1) (clock w1))"
    if "replyStatus (exchanges w (netCalls w)) = Some status" "status \<in> {401, 403, 422, 500}"
    using that assms ex x w1
    by (auto simp: analyzeFrameRequest_def replyStatus_def responseOk_def split: NetOutcome.splits)
qed

lemma analyzeFrame_loop:
  assumes "retryLoop (analyzeFrameRequest frameData exerciseType) m k le w = (r, w')"
  shows "exchanges w' = exchanges w \<and> netCalls w \<le> netCalls w'
       \<and> netCalls w' \<le> netCalls w + (nat (m + 1) - k)
       \<and> length (backoffWaits (trace w')) \<le> length (backoffWaits (trace w)) + (nat m - k)
       \<and> (\<forall>n status. netCalls w \<le> n \<and> n < netCalls w'
             \<and> replyStatus (exchanges w n) = Some status \<and> status \<in> {401, 403, 422, 500}
             \<longrightarrow> r = Inr (getFallbackPoseData w' exerciseType (clock w') (clock w')))"
  using assms
proof (induction "nat (m + 1) - k" arbitrary: k w le)
  case 0
  from "0.prems" show ?case
  proof (cases rule: retryLoop_cases)
    case never
    then show ?thesis by simp
  qed (use 0 in auto)
next
  case (Suc d)
  let ?f = "analyzeFrameRequest frameData exerciseType"
  have single: ?case
    if att: "attemptOnce ?f w = (r0, w')"
      and r0: "r0 = r \<or> (\<exists>e. r0 = Inl e \<and> (\<exists>e'. r = Inl e'))" for r0
  proof (cases "isConnected (networkStatus w)")
    case False
    then have "w' = w" using att by (simp add: attemptOnce_def)
    then show ?thesis by auto
  next
    case True
    then have f: "?f w = (r0, w')" using att by (simp add: attemptOnce_def)
    note eff = analyzeFrameRequest_effect [OF f]
    have "r = Inr (getFallbackPoseData w' exerciseType (clock w') (clock w'))"
      if "replyStatus (exchanges w (netCalls w)) = Some status" "status \<in> {401, 403, 422, 500}"
      for status
      using eff(4) [OF that] r0 by auto
    moreover have "nat (m + 1) - k \<ge> 1" using Suc.hyps(2) by simp
    ultimately show ?thesis using eff(1,2,3) by (auto simp: less_Suc_eq)
  qed
  from Suc.prems show ?case
  proof (cases rule: retryLoop_cases)
    case never
    then show ?thesis by simp
  next
    case (success v)
    then show ?thesis using single by blast
  next
    case undefined
    then show ?thesis using single by blast
  next
    case (fatal msg)
    then show ?thesis using single by blast
  next
    case (exhausted msg)
    then show ?thesis using single by blast
  next
    case (retry msg w1)
    let ?w2 = "afterBackoff k w1"
    have d: "d = nat (m + 1) - Suc k" using Suc.hyps(2) by simp
    note IH = Suc.hyps(1) [OF d retry(4)]
    show ?thesis
    proof (cases "isConnected (networkStatus w)")
      case False
      then have "w1 = w" using retry(2) by (simp add: attemptOnce_def)
      then show ?thesis using IH retry(1) by (auto simp: afterBackoff_fields backoffWaits_append)
    next
      case True
      then have f: "?f w = (Inl (Error msg), w1)" using retry(2) by (simp add: attemptOnce_def)
      note eff = analyzeFrameRequest_effect [OF f]
      have notdeg: "\<not> (replyStatus (exchanges w (netCalls w)) = Some status
                      \<and> status \<in> {401, 403, 422, 500})" for status
        using eff(4) [of status] by auto
      have "r = Inr (getFallbackPoseData w' exerciseType (clock w') (clock w'))"
        if "netCalls w \<le> n" "n < netCalls w'" "replyStatus (exchanges w n) = Some status"
          "status \<in> {401, 403, 422, 500}" for n status
      proof -
        have "n \<noteq> netCalls w" using notdeg that by blast
        then have "netCalls ?w2 \<le> n" using that(1) eff(1) by (simp add: afterBackoff_fields)
        moreover have "exchanges ?w2 = exchanges w" using eff(2) by (simp add: afterBackoff_fields)
        ultimately show ?thesis using IH that by metis
      qed
      then show ?thesis using IH eff retry(1)
        by (auto simp: afterBackoff_fields backoffWaits_append)
    qed
  qed
qed

lemma analyzeFrame_first_reply:
  assumes "\<not> noBaseUrl w" and "isConnected (networkStatus w)"
    and "replyStatus (exchanges w (netCalls w)) = Some status" and "status \<in> {401, 403, 422, 500}"
  shows "analyzeFrame frameData exerciseType w =
     (Inr (getFallbackPoseData (snd (netExchange ''POST'' (urlBase w @ ''/api/analyze-frame'') w))
             exerciseType
             (clock (snd (netExchange ''POST'' (urlBase w @ ''/api/analyze-frame'') w)))
             (clock (snd (netExchange ''POST'' (urlBase w @ ''/api/analyze-frame'') w)))),
      snd (netExchange ''POST'' (urlBase w @ ''/api/analyze-frame'') w))"
proof -
  let ?f = "analyzeFrameRequest frameData exerciseType"
  let ?w1 = "snd (netExchange ''POST'' (urlBase w @ ''/api/analyze-frame'') w)"
  obtain r w1 where f: "?f w = (r, w1)" by (cases "?f w")
  have w1: "w1 = ?w1"
    using f
    by (auto simp: analyzeFrameRequest_def split: prod.splits NetOutcome.splits if_splits sum.splits)
  have "r = Inr (getFallbackPoseData w1 exerciseType (clock w1) (clock w1))"
    using analyzeFrameRequest_effect(4) [OF f assms(3,4)] .
  then have "attemptOnce ?f w
      = (Inr (getFallbackPoseData ?w1 exerciseType (clock ?w1) (clock ?w1)), ?w1)"
    using f w1 assms(2) by (simp add: attemptOnce_def)
  then have "retryLoop ?f 1 0 Undefined w
      = (Inr (getFallbackPoseData ?w1 exerciseType (clock ?w1) (clock ?w1)), ?w1)"
    by (rule retryLoop_success) simp
  then show ?thesis using assms(1,2) by (simp add: analyzeFrame_def executeWithRetry_def)
qed

lemma getFallbackPoseData_valid:
  "validatePoseData (getFallbackPoseData w exerciseType now stamp) = Inr True"
  by (simp add: validatePoseData_def getFallbackPoseData_def Let_def keypointLiteral_def
        split: prod.splits)

lemma getFallbackPoseData_stage:
  "property ''stage'' (getFallbackPoseData w exerciseType now stamp)
     \<in> {JStr ''up'', JStr ''down'', JStr ''hold'', JStr ''rest''}"
  by (simp add: getFallbackPoseData_def Let_def split: prod.splits)

lemma getFallbackPoseData_keypoints:
  "\<exists>kps. property ''keypoints'' (getFallbackPoseData w exerciseType now stamp) = JArr kps
     \<and> length kps = 6 \<and> everyKeypoint kps = Inr True"
  by (simp add: getFallbackPoseData_def Let_def keypointLiteral_def split: prod.splits)

lemma getFallbackPoseData_fields:
  "isNumber (property ''confidence'' (getFallbackPoseData w exerciseType now stamp))"
  "isNumber (property ''formScore'' (getFallbackPoseData w exerciseType now stamp))"
  "isNumber (property ''currentRep'' (getFallbackPoseData w exerciseType now stamp))"
  "isArray (property ''warnings'' (getFallbackPoseData w exerciseType now stamp))"
  by (simp_all add: getFallbackPoseData_def Let_def split: prod.splits)

text \<open>
  C2. Whenever one of the network calls that a call of \<open>analyzeFrame\<close> makes is answered
  with status 401, 403, 422 or 500, the call returns the synthetic pose data (computed
  at the clock of that moment) instead of an error, and what it returns is a \<open>PoseData\<close>:
  the service's own \<open>validatePoseData\<close> accepts it, that is, it has the fields
  \<open>keypoints\<close>, \<open>confidence\<close>, \<open>formScore\<close>, \<open>currentRep\<close>, \<open>stage\<close> and \<open>warnings\<close>, each
  of its type; there are six keypoints, each a valid keypoint; and the stage is one of
  \<open>up\<close>, \<open>down\<close>, \<open>hold\<close>, \<open>rest\<close>. The call waits for at most one backoff, that is, it
  retries at most once, and makes at most two network calls.
\<close>

theorem analyzeFrame_degrades:
  assumes "analyzeFrame frameData exerciseType w = (r, w')"
    and "netCalls w \<le> n" and "n < netCalls w'"
    and "replyStatus (exchanges w n) = Some status" and "status \<in> {401, 403, 422, 500}"
  shows "r = Inr (getFallbackPoseData w' exerciseType (clock w') (clock w'))
       \<and> (\<exists>pose. r = Inr pose \<and> validatePoseData pose = Inr True
             \<and> (\<exists>kps. property ''keypoints'' pose = JArr kps \<and> length kps = 6
                   \<and> everyKeypoint kps = Inr True)
             \<and> isNumber (property ''confidence'' pose)
             \<and> isNumber (property ''formScore'' pose)
             \<and> isNumber (property ''currentRep'' pose)
             \<and> property ''stage'' pose \<in> {JStr ''up'', JStr ''down'', JStr ''hold'', JStr ''rest''}
             \<and> isArray (property ''warnings'' pose))
       \<and> length (backoffWaits (trace w')) \<le> length (backoffWaits (trace w)) + 1
       \<and> netCalls w' \<le> netCalls w + 2"
proof -
  have run: "retryLoop (analyzeFrameRequest frameData exerciseType) 1 0 Undefined w = (r, w')"
    using assms(1-3)
    by (auto simp: analyzeFrame_def executeWithRetry_def split: if_splits)
  have a: "r = Inr (getFallbackPoseData w' exerciseType (clock w') (clock w'))"
    "length (backoffWaits (trace w')) \<le> length (backoffWaits (trace w)) + 1"
    "netCalls w' \<le> netCalls w + 2"
    using analyzeFrame_loop [OF run] assms(2-5) by auto
  let ?pose = "getFallbackPoseData w' exerciseType (clock w') (clock w')"
  have "r = Inr ?pose \<and> validatePoseData ?pose = Inr True
      \<and> (\<exists>kps. property ''keypoints'' ?pose = JArr kps \<and> length kps = 6
            \<and> everyKeypoint kps = Inr True)
      \<and> isNumber (property ''confidence'' ?pose)
      \<and> isNumber (property ''formScore'' ?pose)
      \<and> isNumber (property ''currentRep'' ?pose)
      \<and> property ''stage'' ?pose \<in> {JStr ''up'', JStr ''down'', JStr ''hold'', JStr ''rest''}
      \<and> isArray (property ''warnings'' ?pose)"
    using a(1) getFallbackPoseData_valid [of w' exerciseType "clock w'" "clock w'"]
      getFallbackPoseData_keypoints [of w' exerciseType "clock w'" "clock w'"]
      getFallbackPoseData_stage [of w' exerciseType "clock w'" "clock w'"]
      getFallbackPoseData_fields [of w' exerciseType "clock w'" "clock w'"]
    by (intro conjI)
  then have b: "\<exists>pose. r = Inr pose \<and> validatePoseData pose = Inr True
             \<and> (\<exists>kps. property ''keypoints'' pose = JArr kps \<and> length kps = 6
                   \<and> everyKeypoint kps = Inr True)
             \<and> isNumber (property ''confidence'' pose)
             \<and> isNumber (property ''formScore'' pose)
             \<and> isNumber (property ''currentRep'' pose)
             \<and> property ''stage'' pose \<in> {JStr ''up'', JStr ''down'', JStr ''hold'', JStr ''rest''}
             \<and> isArray (property ''warnings'' pose)"
    by (rule exI)
  show ?thesis using a b by (intro conjI)
qed

lemma unauthorized_step:
  "analyzeFrame frameData ''squat'' (unauthorizedService n)
     = (Inr (getFallbackPoseData (unauthorizedService (Suc n)) ''squat''
               (20 * int (Suc n)) (20 * int (Suc n))),
        unauthorizedService (Suc n))"
proof -
  have w1: "snd (netExchange ''POST'' (urlBase (unauthorizedService n) @ ''/api/analyze-frame'')
                  (unauthorizedService n))
      = unauthorizedService (Suc n)"
    by (simp add: netExchange_def Let_def unauthorizedService_def readyService_def freshService_def
          urlBase_def replyWith_def replicate_append_same)
  have "analyzeFrame frameData ''squat'' (unauthorizedService n) =
     (Inr (getFallbackPoseData (unauthorizedService (Suc n)) ''squat''
             (clock (unauthorizedService (Suc n))) (clock (unauthorizedService (Suc n)))),
      unauthorizedService (Suc n))"
    using analyzeFrame_first_reply [of "unauthorizedService n" 401 frameData "''squat''"]
    unfolding w1
    by (simp add: unauthorizedService_def readyService_def freshService_def noBaseUrl_def
          replyStatus_def replyWith_def)
  then show ?thesis by (simp add: unauthorizedService_def)
qed

text \<open>Three consecutive calls, each answered with 401: each returns synthetic pose data,
  none waits, and three network calls are made in all. The first returns, at instant 20,
  a \<open>PoseData\<close> in the stage \<open>rest\<close>, repetition 1, with the warning of that stage; an
  object that has only \<open>currentRep\<close> and \<open>stage\<close> is no \<open>PoseData\<close>.\<close>

theorem analyzeFrame_degrades_witness:
  "fst (analyzeFrame ''frame1'' ''squat'' (unauthorizedService 0))
     = Inr (getFallbackPoseData (unauthorizedService 1) ''squat'' 20 20)
   \<and> fst (analyzeFrame ''frame2'' ''squat'' (snd (analyzeFrame ''frame1'' ''squat'' (unauthorizedService 0))))
     = Inr (getFallbackPoseData (unauthorizedService 2) ''squat'' 40 40)
   \<and> analyzeFrame ''frame3'' ''squat''
       (snd (analyzeFrame ''frame2'' ''squat'' (snd (analyzeFrame ''frame1'' ''squat'' (unauthorizedService 0)))))
     = (Inr (getFallbackPoseData (unauthorizedService 3) ''squat'' 60 60), unauthorizedService 3)
   \<and> backoffWaits (trace (unauthorizedService 3)) = []
   \<and> netCalls (unauthorizedService 3) = 3
   \<and> validatePoseData (getFallbackPoseData (unauthorizedService 1) ''squat'' 20 20) = Inr True
   \<and> validatePoseData (getFallbackPoseData (unauthorizedService 2) ''squat'' 40 40) = Inr True
   \<and> validatePoseData (getFallbackPoseData (unauthorizedService 3) ''squat'' 60 60) = Inr True
   \<and> property ''stage'' (getFallbackPoseData (unauthorizedService 1) ''squat'' 20 20) = JStr ''rest''
   \<and> property ''currentRep'' (getFallbackPoseData (unauthorizedService 1) ''squat'' 20 20) = JNum 1
   \<and> property ''warnings'' (getFallbackPoseData (unauthorizedService 1) ''squat'' 20 20)
       = JArr [JStr ''Get ready to start your squat'']
   \<and> validatePoseData (JObj [(''currentRep'', JNum 1), (''stage'', JStr ''rest'')]) = Inr False"
proof -
  have s0: "analyzeFrame ''frame1'' ''squat'' (unauthorizedService 0)
      = (Inr (getFallbackPoseData (unauthorizedService 1) ''squat'' 20 20), unauthorizedService 1)"
    using unauthorized_step [of "''frame1''" 0] by simp
  have s1: "analyzeFrame ''frame2'' ''squat'' (unauthorizedService 1)
      = (Inr (getFallbackPoseData (unauthorizedService 2) ''squat'' 40 40), unauthorizedService 2)"
    using unauthorized_step [of "''frame2''" 1] by (simp add: numeral_2_eq_2)
  have s2: "analyzeFrame ''frame3'' ''squat'' (unauthorizedService 2)
      = (Inr (getFallbackPoseData (unauthorizedService 3) ''squat'' 60 60), unauthorizedService 3)"
    using unauthorized_step [of "''frame3''" 2] by (simp add: numeral_3_eq_3 numeral_2_eq_2)
  have st: "replyStatus (exchanges (unauthorizedService n) n) = Some 401" for n
    by (simp add: unauthorizedService_def replyStatus_def replyWith_def)
  have nc: "netCalls (unauthorizedService n) = n" for n
    by (simp add: unauthorizedService_def)
  have clk: "clock (unauthorizedService n) = 20 * int n" for n
    by (simp add: unauthorizedService_def)
  have d0: "fst (analyzeFrame ''frame1'' ''squat'' (unauthorizedService 0))
       = Inr (getFallbackPoseData (unauthorizedService 1) ''squat'' 20 20)
     \<and> validatePoseData (getFallbackPoseData (unauthorizedService 1) ''squat'' 20 20) = Inr True"
    using analyzeFrame_degrades [OF s0 _ _ st [of 0]] by (simp add: s0 nc clk)
  have d1: "validatePoseData (getFallbackPoseData (unauthorizedService 2) ''squat'' 40 40) = Inr True"
    using analyzeFrame_degrades [OF s1 _ _ st [of 1]] by (simp add: nc clk)
  have d2: "validatePoseData (getFallbackPoseData (unauthorizedService 3) ''squat'' 60 60) = Inr True"
    using analyzeFrame_degrades [OF s2 _ _ st [of 2]] by (simp add: nc clk)
  have v: "property ''stage'' (getFallbackPoseData (unauthorizedService 1) ''squat'' 20 20) = JStr ''rest''"
    "property ''currentRep'' (getFallbackPoseData (unauthorizedService 1) ''squat'' 20 20) = JNum 1"
    "property ''warnings'' (getFallbackPoseData (unauthorizedService 1) ''squat'' 20 20)
       = JArr [JStr ''Get ready to start your squat'']"
    by (simp_all add: getFallbackPoseData_def Let_def jsRemainder_def)
  have no: "validatePoseData (JObj [(''currentRep'', JNum 1), (''stage'', JStr ''rest'')]) = Inr False"
    by (simp add: validatePoseData_def objectPrototypeKeys_def)
  have rest: "backoffWaits (trace (unauthorizedService 3)) = []" "netCalls (unauthorizedService 3) = 3"
    by (simp_all add: unauthorizedService_def numeral_3_eq_3)
  show ?thesis using d0 d1 d2 v no rest s0 s1 s2 by simp
qed


section \<open>Synthetic pose data\<close>

lemma jsRemainder_period: "0 \<le> now \<Longrightarrow> jsRemainder (now + 8000) 8000 = jsRemainder now 8000"
  by (simp add: jsRemainder_def sgn_if)

text \<open>
  C9. The synthetic pose data is a function of the exercise type and of the instant
  \<open>now\<close> that \<open>Date.now()\<close> returned: two calls with the same \<open>now\<close>, made in any two
  states of the service and of its platform that have the same \<open>Math.sin\<close> and
  \<open>Math.PI\<close> (whatever their clocks, random numbers, network, queue, cache and
  configuration), and whatever the later instant of the timestamp, agree on keypoints,
  confidence, formScore, currentRep, stage and warnings. For an instant \<open>now \<ge> 0\<close>
  (milliseconds since the epoch), the call at \<open>now + 8000\<close> is in the same phase of the
  cycle: same stage, and the same keypoints, confidence, formScore and warnings.
\<close>

theorem getFallbackPoseData_deterministic:
  "(mathSin w' = mathSin w \<and> mathPI w' = mathPI w \<longrightarrow>
      (\<forall>key \<in> set [''keypoints'', ''confidence'', ''formScore'', ''currentRep'', ''stage'', ''warnings''].
         property key (getFallbackPoseData w' exerciseType now stamp')
           = property key (getFallbackPoseData w exerciseType now stamp)))
   \<and> (\<forall>key \<in> set [''keypoints'', ''confidence'', ''formScore'', ''currentRep'', ''stage'', ''warnings''].
        property key (getFallbackPoseData w exerciseType now stamp)
          = property key (getFallbackPoseData w exerciseType now stamp'))
   \<and> (0 \<le> now \<longrightarrow>
        (\<forall>key \<in> set [''keypoints'', ''confidence'', ''formScore'', ''stage'', ''warnings''].
           property key (getFallbackPoseData w exerciseType (now + 8000) stamp')
             = property key (getFallbackPoseData w exerciseType now stamp)))"
  by (simp add: getFallbackPoseData_def Let_def jsRemainder_period split: prod.splits)

text \<open>Two services on the same platform, one fresh, the other disconnected, after seven
  random draws (on another sequence of random numbers) and three network calls, and at
  another clock, return the same data for the same instant.\<close>

theorem getFallbackPoseData_deterministic_witness:
  "property ''stage'' (getFallbackPoseData freshService ''squat'' 1000 1000) = JStr ''rest''
   \<and> property ''stage'' (getFallbackPoseData freshService ''squat'' 1000 1001) = JStr ''rest''
   \<and> property ''stage'' (getFallbackPoseData freshService ''squat'' 9000 9000) = JStr ''rest''
   \<and> property ''currentRep'' (getFallbackPoseData freshService ''squat'' 1000 1000) = JNum 1
   \<and> property ''currentRep'' (getFallbackPoseData freshService ''squat'' 9000 9000) = JNum 2
   \<and> property ''stage'' (getFallbackPoseData freshService ''squat'' 4500 4500) = JStr ''hold''
   \<and> property ''stage'' (getFallbackPoseData freshService ''squat'' 12500 12500) = JStr ''hold''
   \<and> mathSin (freshService\<lparr>randoms := (\<lambda>n. 9 / 10), randomDraws := 7, netCalls := 3, clock := 5000, networkStatus := lostStatus\<rparr>)
       = mathSin freshService
   \<and> property ''keypoints''
        (getFallbackPoseData
           (freshService\<lparr>randoms := (\<lambda>n. 9 / 10), randomDraws := 7, netCalls := 3, clock := 5000, networkStatus := lostStatus\<rparr>)
           ''squat'' 1000 5000)
       = property ''keypoints'' (getFallbackPoseData freshService ''squat'' 1000 1000)
   \<and> property ''confidence''
        (getFallbackPoseData
           (freshService\<lparr>randoms := (\<lambda>n. 9 / 10), randomDraws := 7, netCalls := 3, clock := 5000, networkStatus := lostStatus\<rparr>)
           ''squat'' 1000 5000)
       = property ''confidence'' (getFallbackPoseData freshService ''squat'' 1000 1000)
   \<and> property ''formScore''
        (getFallbackPoseData
           (freshService\<lparr>randoms := (\<lambda>n. 9 / 10), randomDraws := 7, netCalls := 3, clock := 5000, networkStatus := lostStatus\<rparr>)
           ''squat'' 1000 5000)
       = property ''formScore'' (getFallbackPoseData freshService ''squat'' 1000 1000)"
proof -
  let ?w' = "freshService\<lparr>randoms := (\<lambda>n. 9 / 10), randomDraws := 7, netCalls := 3, clock := 5000, networkStatus := lostStatus\<rparr>"
  have p: "mathSin ?w' = mathSin freshService" "mathPI ?w' = mathPI freshService"
    by simp_all
  have cross: "property ''keypoints'' (getFallbackPoseData ?w' ''squat'' 1000 5000)
       = property ''keypoints'' (getFallbackPoseData freshService ''squat'' 1000 1000)
    \<and> property ''confidence'' (getFallbackPoseData ?w' ''squat'' 1000 5000)
       = property ''confidence'' (getFallbackPoseData freshService ''squat'' 1000 1000)
    \<and> property ''formScore'' (getFallbackPoseData ?w' ''squat'' 1000 5000)
       = property ''formScore'' (getFallbackPoseData freshService ''squat'' 1000 1000)"
    using getFallbackPoseData_deterministic [where w = freshService and w' = ?w'
        and exerciseType = "''squat''" and now = 1000 and stamp = 1000 and stamp' = 5000] p
    by simp
  have same: "property ''stage'' (getFallbackPoseData freshService ''squat'' 1000 1000) = JStr ''rest''
   \<and> property ''stage'' (getFallbackPoseData freshService ''squat'' 1000 1001) = JStr ''rest''
   \<and> property ''stage'' (getFallbackPoseData freshService ''squat'' 9000 9000) = JStr ''rest''
   \<and> property ''currentRep'' (getFallbackPoseData freshService ''squat'' 1000 1000) = JNum 1
   \<and> property ''currentRep'' (getFallbackPoseData freshService ''squat'' 9000 9000) = JNum 2
   \<and> property ''stage'' (getFallbackPoseData freshService ''squat'' 4500 4500) = JStr ''hold''
   \<and> property ''stage'' (getFallbackPoseData freshService ''squat'' 12500 12500) = JStr ''hold''"
    using getFallbackPoseData_deterministic [where w = freshService and w' = freshService
        and exerciseType = "''squat''" and now = 1000 and stamp = 1000 and stamp' = 1001]
      getFallbackPoseData_deterministic [where w = freshService and w' = freshService
        and exerciseType = "''squat''" and now = 4500 and stamp = 4500 and stamp' = 12500]
    by (simp add: getFallbackPoseData_def Let_def jsRemainder_def)
  show ?thesis using p(1) cross same by simp
qed


section \<open>Replay order\<close>



































section \<open>What the configuration cache stores\<close>

lemma getExerciseConfigRequest_effect:
  assumes "getExerciseConfigRequest exerciseType w = (r, w1)"
  shows "baseUrl w1 = baseUrl w
       \<and> ((\<exists>config. r = Inr (JObj config)
              \<and> configCache w1 = AList.update exerciseType (cacheEntryAt w1 config) (configCache w))
          \<or> (configCache w1 = configCache w
              \<and> (r = Inr (getFallbackExerciseConfig exerciseType) \<or> (\<exists>e. r = Inl e))))"
  using assms
  by (auto simp: getExerciseConfigRequest_def cacheConfig_def cacheEntryAt_def netExchange_def Let_def
      split: NetOutcome.splits sum.splits if_splits)

lemma getExerciseConfig_loop:
  assumes "retryLoop (getExerciseConfigRequest exerciseType) m k le w = (r, w')"
  shows "baseUrl w' = baseUrl w
       \<and> ((\<exists>config. r = Inr (JObj config)
              \<and> configCache w' = AList.update exerciseType (cacheEntryAt w' config) (configCache w))
          \<or> (configCache w' = configCache w
              \<and> (r = Inr (getFallbackExerciseConfig exerciseType) \<or> (\<exists>e. r = Inl e))))"
  using assms
proof (induction "nat (m + 1) - k" arbitrary: k w le)
  case 0
  from "0.prems" show ?case
  proof (cases rule: retryLoop_cases)
    case never
    then show ?thesis by simp
  qed (use 0 in auto)
next
  case (Suc d)
  let ?f = "getExerciseConfigRequest exerciseType"
  have single: ?case
    if att: "attemptOnce ?f w = (r0, w')"
      and r0: "r0 = r \<or> (\<exists>e. r0 = Inl e \<and> (\<exists>e'. r = Inl e'))" for r0
  proof (cases "isConnected (networkStatus w)")
    case False
    then have "w' = w \<and> (\<exists>e. r0 = Inl e)" using att by (auto simp: attemptOnce_def)
    then show ?thesis using r0 by auto
  next
    case True
    then have f: "?f w = (r0, w')" using att by (simp add: attemptOnce_def)
    show ?thesis using getExerciseConfigRequest_effect [OF f] r0 by auto
  qed
  from Suc.prems show ?case
  proof (cases rule: retryLoop_cases)
    case never
    then show ?thesis by simp
  next
    case (success v)
    then show ?thesis using single by blast
  next
    case undefined
    then show ?thesis using single by blast
  next
    case (fatal msg)
    then show ?thesis using single by blast
  next
    case (exhausted msg)
    then show ?thesis using single by blast
  next
    case (retry msg w1)
    have d: "d = nat (m + 1) - Suc k" using Suc.hyps(2) by simp
    note IH = Suc.hyps(1) [OF d retry(4)]
    have "baseUrl w1 = baseUrl w \<and> configCache w1 = configCache w"
    proof (cases "isConnected (networkStatus w)")
      case False
      then show ?thesis using retry(2) by (simp add: attemptOnce_def)
    next
      case True
      then have f: "?f w = (Inl (Error msg), w1)" using retry(2) by (simp add: attemptOnce_def)
      show ?thesis using getExerciseConfigRequest_effect [OF f] by auto
    qed
    then show ?thesis using IH by (simp add: afterBackoff_fields)
  qed
qed

lemma getExerciseConfigRequest_reply:
  assumes "getExerciseConfigRequest exerciseType w = (r, w1)"
  shows "netCalls w1 = Suc (netCalls w)" and "exchanges w1 = exchanges w"
    and "replyStatus (exchanges w (netCalls w)) = Some status \<Longrightarrow> status \<in> {401, 403, 404, 500}
         \<Longrightarrow> r = Inr (getFallbackExerciseConfig exerciseType) \<and> configCache w1 = configCache w"
    and "outcome (exchanges w (netCalls w)) = Replied status statusText (Valid raw config)
         \<Longrightarrow> responseOk status
         \<Longrightarrow> r = Inr (JObj config)
             \<and> configCache w1 = AList.update exerciseType (cacheEntryAt w1 config) (configCache w)"
    and "r = Inr v \<Longrightarrow>
         \<exists>code. replyStatus (exchanges w (netCalls w)) = Some code
           \<and> (code \<in> {401, 403, 404, 500}
               \<or> responseOk code
                  \<and> (\<exists>text' raw' config'. outcome (exchanges w (netCalls w))
                        = Replied code text' (Valid raw' config')))"
proof -
  show "netCalls w1 = Suc (netCalls w)" "exchanges w1 = exchanges w"
    using assms
    by (auto simp: getExerciseConfigRequest_def cacheConfig_def netExchange_def Let_def
        split: NetOutcome.splits sum.splits if_splits)
  show "r = Inr (getFallbackExerciseConfig exerciseType) \<and> configCache w1 = configCache w"
    if "replyStatus (exchanges w (netCalls w)) = Some status" "status \<in> {401, 403, 404, 500}"
    using that assms
    by (auto simp: getExerciseConfigRequest_def replyStatus_def responseOk_def netExchange_def Let_def
        split: NetOutcome.splits)
  show "r = Inr (JObj config)
      \<and> configCache w1 = AList.update exerciseType (cacheEntryAt w1 config) (configCache w)"
    if "outcome (exchanges w (netCalls w)) = Replied status statusText (Valid raw config)"
      "responseOk status"
    using that assms
    by (auto simp: getExerciseConfigRequest_def cacheConfig_def cacheEntryAt_def netExchange_def Let_def)
  show "\<exists>code. replyStatus (exchanges w (netCalls w)) = Some code
           \<and> (code \<in> {401, 403, 404, 500}
               \<or> responseOk code
                  \<and> (\<exists>text' raw' config'. outcome (exchanges w (netCalls w))
                        = Replied code text' (Valid raw' config')))"
    if "r = Inr v"
  proof (cases "outcome (exchanges w (netCalls w))")
    case (Replied code text' body)
    then show ?thesis using that assms
      by (cases body)
         (auto simp: getExerciseConfigRequest_def replyStatus_def netExchange_def Let_def
            split: if_splits)
  qed (use that assms in \<open>auto simp: getExerciseConfigRequest_def netExchange_def Let_def\<close>)
qed


lemma getExerciseConfig_loop_replies:
  assumes "retryLoop (getExerciseConfigRequest exerciseType) m k le w = (r, w')"
  shows "exchanges w' = exchanges w \<and> netCalls w \<le> netCalls w'
       \<and> (\<forall>n status. netCalls w \<le> n \<and> n < netCalls w'
             \<and> replyStatus (exchanges w n) = Some status \<and> status \<in> {401, 403, 404, 500}
             \<longrightarrow> r = Inr (getFallbackExerciseConfig exerciseType) \<and> configCache w' = configCache w)
       \<and> (\<forall>n status statusText raw config. netCalls w \<le> n \<and> n < netCalls w'
             \<and> outcome (exchanges w n) = Replied status statusText (Valid raw config)
             \<and> responseOk status
             \<longrightarrow> r = Inr (JObj config)
                 \<and> configCache w' = AList.update exerciseType (cacheEntryAt w' config) (configCache w))
       \<and> (\<forall>v. r = Inr v \<longrightarrow> netCalls w < netCalls w'
             \<and> (\<exists>code. replyStatus (exchanges w (netCalls w' - 1)) = Some code
                   \<and> (code \<in> {401, 403, 404, 500}
                       \<or> responseOk code
                          \<and> (\<exists>text' raw' config'. outcome (exchanges w (netCalls w' - 1))
                                = Replied code text' (Valid raw' config')))))"
  using assms
proof (induction "nat (m + 1) - k" arbitrary: k w le)
  case 0
  from "0.prems" show ?case
  proof (cases rule: retryLoop_cases)
    case never
    then show ?thesis by simp
  qed (use 0 in auto)
next
  case (Suc d)
  let ?f = "getExerciseConfigRequest exerciseType"
  have single: ?case
    if att: "attemptOnce ?f w = (r0, w')"
      and r0: "r0 = r \<or> (\<exists>e. r0 = Inl e \<and> (\<exists>e'. r = Inl e'))" for r0
  proof (cases "isConnected (networkStatus w)")
    case False
    then have "w' = w \<and> (\<exists>e. r0 = Inl e)" using att by (auto simp: attemptOnce_def)
    then show ?thesis using r0 by auto
  next
    case True
    then have f: "?f w = (r0, w')" using att by (simp add: attemptOnce_def)
    note eff = getExerciseConfigRequest_reply [OF f]
    have n: "n = netCalls w" if "netCalls w \<le> n" "n < netCalls w'" for n
      using that eff(1) by simp
    have a: "r = Inr (getFallbackExerciseConfig exerciseType) \<and> configCache w' = configCache w"
      if "netCalls w \<le> n" "n < netCalls w'" "replyStatus (exchanges w n) = Some status"
        "status \<in> {401, 403, 404, 500}" for n status
      using eff(3) [of status] that n [OF that(1,2)] r0 by auto
    have b: "r = Inr (JObj config)
        \<and> configCache w' = AList.update exerciseType (cacheEntryAt w' config) (configCache w)"
      if "netCalls w \<le> n" "n < netCalls w'"
        "outcome (exchanges w n) = Replied status statusText (Valid raw config)" "responseOk status"
      for n status statusText raw config
      using eff(4) [of status statusText raw config] that n [OF that(1,2)] r0 by auto
    have c: "netCalls w < netCalls w'
        \<and> (\<exists>code. replyStatus (exchanges w (netCalls w' - 1)) = Some code
              \<and> (code \<in> {401, 403, 404, 500}
                  \<or> responseOk code
                     \<and> (\<exists>text' raw' config'. outcome (exchanges w (netCalls w' - 1))
                           = Replied code text' (Valid raw' config'))))"
      if "r = Inr v" for v
    proof -
      have "r0 = Inr v" using that r0 by auto
      from eff(5) [OF this] show ?thesis using eff(1) by simp
    qed
    have a': "\<forall>n status. netCalls w \<le> n \<and> n < netCalls w'
             \<and> replyStatus (exchanges w n) = Some status \<and> status \<in> {401, 403, 404, 500}
             \<longrightarrow> r = Inr (getFallbackExerciseConfig exerciseType) \<and> configCache w' = configCache w"
      using a by blast
    have b': "\<forall>n status statusText raw config. netCalls w \<le> n \<and> n < netCalls w'
             \<and> outcome (exchanges w n) = Replied status statusText (Valid raw config)
             \<and> responseOk status
             \<longrightarrow> r = Inr (JObj config)
                 \<and> configCache w' = AList.update exerciseType (cacheEntryAt w' config) (configCache w)"
      using b by blast
    have c': "\<forall>v. r = Inr v \<longrightarrow> netCalls w < netCalls w'
             \<and> (\<exists>code. replyStatus (exchanges w (netCalls w' - 1)) = Some code
                   \<and> (code \<in> {401, 403, 404, 500}
                       \<or> responseOk code
                          \<and> (\<exists>text' raw' config'. outcome (exchanges w (netCalls w' - 1))
                                = Replied code text' (Valid raw' config'))))"
      using c by blast
    have "exchanges w' = exchanges w" "netCalls w \<le> netCalls w'" using eff(1,2) by simp_all
    then show ?thesis using a' b' c' by (intro conjI)
  qed
  from Suc.prems show ?case
  proof (cases rule: retryLoop_cases)
    case never
    then show ?thesis by simp
  next
    case (success v)
    then show ?thesis using single by blast
  next
    case undefined
    then show ?thesis using single by blast
  next
    case (fatal msg)
    then show ?thesis using single by blast
  next
    case (exhausted msg)
    then show ?thesis using single by blast
  next
    case (retry msg w1)
    let ?w2 = "afterBackoff k w1"
    have d: "d = nat (m + 1) - Suc k" using Suc.hyps(2) by simp
    note IH = Suc.hyps(1) [OF d retry(4)]
    show ?thesis
    proof (cases "isConnected (networkStatus w)")
      case False
      then have "w1 = w" using retry(2) by (simp add: attemptOnce_def)
      then show ?thesis using IH by (simp add: afterBackoff_fields)
    next
      case True
      then have f: "?f w = (Inl (Error msg), w1)" using retry(2) by (simp add: attemptOnce_def)
      note eff = getExerciseConfigRequest_reply [OF f]
      have cache: "configCache w1 = configCache w"
        using getExerciseConfigRequest_effect [OF f] by auto
      have ex: "exchanges ?w2 = exchanges w" "netCalls ?w2 = Suc (netCalls w)"
        "configCache ?w2 = configCache w"
        using eff(1,2) cache by (simp_all add: afterBackoff_fields)
      have first: "\<not> (replyStatus (exchanges w (netCalls w)) = Some status
                      \<and> status \<in> {401, 403, 404, 500})"
        "\<not> (outcome (exchanges w (netCalls w)) = Replied status statusText (Valid raw config)
            \<and> responseOk status)" for status statusText raw config
        using eff(3) [of status] eff(4) [of status statusText raw config] by auto
      have later: "netCalls ?w2 \<le> n" if "netCalls w \<le> n" "n \<noteq> netCalls w" for n
        using that ex(2) by simp
      have a: "r = Inr (getFallbackExerciseConfig exerciseType) \<and> configCache w' = configCache w"
        if "netCalls w \<le> n" "n < netCalls w'" "replyStatus (exchanges w n) = Some status"
          "status \<in> {401, 403, 404, 500}" for n status
      proof -
        have "n \<noteq> netCalls w" using first(1) that by blast
        from later [OF that(1) this] show ?thesis using IH that ex by metis
      qed
      have b: "r = Inr (JObj config)
          \<and> configCache w' = AList.update exerciseType (cacheEntryAt w' config) (configCache w)"
        if "netCalls w \<le> n" "n < netCalls w'"
          "outcome (exchanges w n) = Replied status statusText (Valid raw config)" "responseOk status"
        for n status statusText raw config
      proof -
        have "n \<noteq> netCalls w" using first(2) that by blast
        from later [OF that(1) this] show ?thesis using IH that ex by metis
      qed
      have c: "netCalls w < netCalls w'
          \<and> (\<exists>code. replyStatus (exchanges w (netCalls w' - 1)) = Some code
                \<and> (code \<in> {401, 403, 404, 500}
                    \<or> responseOk code
                       \<and> (\<exists>text' raw' config'. outcome (exchanges w (netCalls w' - 1))
                             = Replied code text' (Valid raw' config'))))"
        if "r = Inr v" for v
        using IH that ex by auto
      have a': "\<forall>n status. netCalls w \<le> n \<and> n < netCalls w'
               \<and> replyStatus (exchanges w n) = Some status \<and> status \<in> {401, 403, 404, 500}
               \<longrightarrow> r = Inr (getFallbackExerciseConfig exerciseType) \<and> configCache w' = configCache w"
        using a by blast
      have b': "\<forall>n status statusText raw config. netCalls w \<le> n \<and> n < netCalls w'
               \<and> outcome (exchanges w n) = Replied status statusText (Valid raw config)
               \<and> responseOk status
               \<longrightarrow> r = Inr (JObj config)
                   \<and> configCache w' = AList.update exerciseType (cacheEntryAt w' config) (configCache w)"
        using b by blast
      have c': "\<forall>v. r = Inr v \<longrightarrow> netCalls w < netCalls w'
               \<and> (\<exists>code. replyStatus (exchanges w (netCalls w' - 1)) = Some code
                     \<and> (code \<in> {401, 403, 404, 500}
                         \<or> responseOk code
                            \<and> (\<exists>text' raw' config'. outcome (exchanges w (netCalls w' - 1))
                                  = Replied code text' (Valid raw' config'))))"
        using c by blast
      have "exchanges w' = exchanges w" "netCalls w \<le> netCalls w'" using IH ex by auto
      then show ?thesis using a' b' c' by (intro conjI)
    qed
  qed
qed

text \<open>
  C4 (as amended). When a call of \<open>getExerciseConfig\<close> misses the cache while online and
  returns a value, then either the value was fetched from the backend and is stored in
  the cache under the exercise type, so that a following call at any instant up to
  \<open>CACHE_DURATION\<close> later returns it from the cache and changes nothing (no network
  call); or the value is the fallback configuration, and the cache holds no entry for
  the exercise type: a fallback is returned without being stored. Which of the two
  depends on the reply alone. Whenever one of the network calls that the call makes is
  answered with 401, 403, 404 or 500, the value is the fallback and the cache holds no
  entry for the exercise type. Whenever one of them is answered with a success status
  and a configuration that the decoding accepts, the value is that configuration, it is
  stored, and it is served from the cache up to \<open>CACHE_DURATION\<close> later. And a call that
  returns a value made at least one network call, the last of which was answered in
  one of these two ways.
\<close>

theorem getExerciseConfig_caches_fetched:
  assumes "\<not> noBaseUrl w" and "fst (getCachedConfig exerciseType w) = None"
    and "isConnected (networkStatus w)"
    and "getExerciseConfig exerciseType w = (Inr v, w')"
  shows "((\<exists>config. v = JObj config
            \<and> map_of (configCache w') exerciseType = Some (cacheEntryAt w' config)
            \<and> (\<forall>t. clock w' \<le> t \<and> t \<le> clock w' + CACHE_DURATION \<longrightarrow>
                  getExerciseConfig exerciseType (w'\<lparr>clock := t\<rparr>) = (Inr v, w'\<lparr>clock := t\<rparr>)))
         \<or> (v = getFallbackExerciseConfig exerciseType \<and> map_of (configCache w') exerciseType = None))
       \<and> (\<forall>n status. netCalls w \<le> n \<and> n < netCalls w'
             \<and> replyStatus (exchanges w n) = Some status \<and> status \<in> {401, 403, 404, 500}
             \<longrightarrow> v = getFallbackExerciseConfig exerciseType
                 \<and> map_of (configCache w') exerciseType = None)
       \<and> (\<forall>n status statusText raw config. netCalls w \<le> n \<and> n < netCalls w'
             \<and> outcome (exchanges w n) = Replied status statusText (Valid raw config)
             \<and> responseOk status
             \<longrightarrow> v = JObj config
                 \<and> map_of (configCache w') exerciseType = Some (cacheEntryAt w' config)
                 \<and> (\<forall>t. clock w' \<le> t \<and> t \<le> clock w' + CACHE_DURATION \<longrightarrow>
                       getExerciseConfig exerciseType (w'\<lparr>clock := t\<rparr>)
                         = (Inr v, w'\<lparr>clock := t\<rparr>)))
       \<and> netCalls w < netCalls w'
       \<and> (\<exists>code. replyStatus (exchanges w (netCalls w' - 1)) = Some code
             \<and> (code \<in> {401, 403, 404, 500}
                 \<or> responseOk code
                    \<and> (\<exists>text' raw' config'. outcome (exchanges w (netCalls w' - 1))
                          = Replied code text' (Valid raw' config'))))"
proof -
  obtain w1 where g: "getCachedConfig exerciseType w = (None, w1)"
    using assms(2) by (cases "getCachedConfig exerciseType w") auto
  have w1: "baseUrl w1 = baseUrl w" "networkStatus w1 = networkStatus w"
    "map_of (configCache w1) exerciseType = None"
    "netCalls w1 = netCalls w" "exchanges w1 = exchanges w"
    using g by (auto simp: getCachedConfig_def delete_conv split: option.splits if_splits)
  have run: "retryLoop (getExerciseConfigRequest exerciseType) (maxRetries (retryConfig w1)) 0 Undefined w1
      = (Inr v, w')"
    using assms(1,3,4) g w1 by (simp add: getExerciseConfig_def executeWithRetry_def)
  note L = getExerciseConfig_loop [OF run]
  note R = getExerciseConfig_loop_replies [OF run]
  have nb: "\<not> noBaseUrl w'" using L w1(1) assms(1) by (simp add: noBaseUrl_def)
  have served: "getExerciseConfig exerciseType (w'\<lparr>clock := t\<rparr>) = (Inr v, w'\<lparr>clock := t\<rparr>)"
    if "v = JObj config" "map_of (configCache w') exerciseType = Some (cacheEntryAt w' config)"
      "clock w' \<le> t" "t \<le> clock w' + CACHE_DURATION" for t config
    using that nb
    by (simp add: getExerciseConfig_def getCachedConfig_def noBaseUrl_def cacheEntryAt_def)
  have first: "(\<exists>config. v = JObj config
            \<and> map_of (configCache w') exerciseType = Some (cacheEntryAt w' config)
            \<and> (\<forall>t. clock w' \<le> t \<and> t \<le> clock w' + CACHE_DURATION \<longrightarrow>
                  getExerciseConfig exerciseType (w'\<lparr>clock := t\<rparr>) = (Inr v, w'\<lparr>clock := t\<rparr>)))
         \<or> (v = getFallbackExerciseConfig exerciseType \<and> map_of (configCache w') exerciseType = None)"
  proof -
    from L consider
      (fetched) config where "v = JObj config"
        "configCache w' = AList.update exerciseType (cacheEntryAt w' config) (configCache w1)"
      | (fallback) "configCache w' = configCache w1" "v = getFallbackExerciseConfig exerciseType"
      by auto
    then show ?thesis
    proof cases
      case (fetched config)
      have m: "map_of (configCache w') exerciseType = Some (cacheEntryAt w' config)"
        using fetched(2) by (simp add: update_conv)
      show ?thesis using fetched(1) m served by blast
    next
      case fallback
      then show ?thesis using w1(3) by simp
    qed
  qed
  have a: "v = getFallbackExerciseConfig exerciseType \<and> map_of (configCache w') exerciseType = None"
    if "netCalls w \<le> n" "n < netCalls w'" "replyStatus (exchanges w n) = Some status"
      "status \<in> {401, 403, 404, 500}" for n status
  proof -
    have "Inr v = (Inr (getFallbackExerciseConfig exerciseType) :: Thrown + JsVal)
        \<and> configCache w' = configCache w1"
      using R that w1(4,5) by metis
    then show ?thesis using w1(3) by simp
  qed
  have b: "v = JObj config
        \<and> map_of (configCache w') exerciseType = Some (cacheEntryAt w' config)
        \<and> (\<forall>t. clock w' \<le> t \<and> t \<le> clock w' + CACHE_DURATION \<longrightarrow>
              getExerciseConfig exerciseType (w'\<lparr>clock := t\<rparr>) = (Inr v, w'\<lparr>clock := t\<rparr>))"
    if "netCalls w \<le> n" "n < netCalls w'"
      "outcome (exchanges w n) = Replied status statusText (Valid raw config)" "responseOk status"
    for n status statusText raw config
  proof -
    have "Inr v = (Inr (JObj config) :: Thrown + JsVal)
        \<and> configCache w' = AList.update exerciseType (cacheEntryAt w' config) (configCache w1)"
      using R that w1(4,5) by metis
    then have "v = JObj config" "map_of (configCache w') exerciseType = Some (cacheEntryAt w' config)"
      by (simp_all add: update_conv)
    then show ?thesis using served by blast
  qed
  have c: "netCalls w < netCalls w'
       \<and> (\<exists>code. replyStatus (exchanges w (netCalls w' - 1)) = Some code
             \<and> (code \<in> {401, 403, 404, 500}
                 \<or> responseOk code
                    \<and> (\<exists>text' raw' config'. outcome (exchanges w (netCalls w' - 1))
                          = Replied code text' (Valid raw' config'))))"
    using R w1(4,5) by auto
  show ?thesis using first a b c by blast
qed

lemmas config_defs = getExerciseConfig_def getCachedConfig_def noBaseUrl_def executeWithRetry_def
  attemptOnce_def getExerciseConfigRequest_def netExchange_def Let_def responseOk_def
  readyService_def freshService_def urlBase_def replyWith_def cacheConfig_def CACHE_DURATION_def

lemma server_error_run:
  "getExerciseConfig ''squat'' (serverErrorService\<lparr>netCalls := n, clock := t, trace := tr\<rparr>)
     = (Inr (getFallbackExerciseConfig ''squat''),
        serverErrorService\<lparr>netCalls := Suc n, clock := t + 20,
          trace := tr @ [NetworkCall ''GET'' ''http://10.0.2.2:8000/api/exercise-config/squat'']\<rparr>)"
  apply (simp add: config_defs serverErrorService_def)
  apply (subst retryLoop.simps)
  apply (simp add: config_defs serverErrorService_def)
  done

text \<open>
  C4 as stated fails for the fallback: after a reply 500 the fallback configuration is
  returned and the cache stays empty, and the call that follows immediately goes to the
  network again.
\<close>

theorem getExerciseConfig_fallback_counterexample:
  "fst (getExerciseConfig ''squat'' serverErrorService) = Inr (getFallbackExerciseConfig ''squat'')
   \<and> configCache (snd (getExerciseConfig ''squat'' serverErrorService)) = []
   \<and> netCalls (snd (getExerciseConfig ''squat'' serverErrorService)) = 1
   \<and> netCalls (snd (getExerciseConfig ''squat'' (snd (getExerciseConfig ''squat'' serverErrorService)))) = 2"
proof -
  have a: "getExerciseConfig ''squat'' serverErrorService
     = (Inr (getFallbackExerciseConfig ''squat''),
        serverErrorService\<lparr>netCalls := 1, clock := 20,
          trace := [NetworkCall ''GET'' ''http://10.0.2.2:8000/api/exercise-config/squat'']\<rparr>)"
    using server_error_run [where n = 0 and t = 0 and tr = "[]"]
    by (simp add: serverErrorService_def readyService_def freshService_def)
  show ?thesis
    by (simp add: a server_error_run) (simp add: serverErrorService_def readyService_def freshService_def)
qed

lemma config_run:
  "getExerciseConfig ''squat'' configService
     = (Inr (JObj squatConfig),
        configService\<lparr>netCalls := 1, clock := 20,
          trace := [NetworkCall ''GET'' ''http://10.0.2.2:8000/api/exercise-config/squat''],
          configCache := [(''squat'', \<lparr>cachedData = squatConfig, cachedAt = 20, expiresAt = 1800020\<rparr>)]\<rparr>)"
  apply (simp add: config_defs configService_def)
  apply (subst retryLoop.simps)
  apply (simp add: config_defs configService_def)
  done

text \<open>A configuration fetched with status 200 is stored and the next call is served from
  the cache without a network call; a fallback returned on a reply 500 is not stored.\<close>

theorem getExerciseConfig_caches_fetched_witness:
  "fst (getCachedConfig ''squat'' configService) = None
   \<and> isConnected (networkStatus configService)
   \<and> replyStatus (exchanges configService 0) = Some 200
   \<and> fst (getExerciseConfig ''squat'' configService) = Inr (JObj squatConfig)
   \<and> map_of (configCache (snd (getExerciseConfig ''squat'' configService))) ''squat''
       = Some \<lparr>cachedData = squatConfig, cachedAt = 20, expiresAt = 1800020\<rparr>
   \<and> getExerciseConfig ''squat'' (snd (getExerciseConfig ''squat'' configService))
       = (Inr (JObj squatConfig), snd (getExerciseConfig ''squat'' configService))
   \<and> netCalls (snd (getExerciseConfig ''squat'' (snd (getExerciseConfig ''squat'' configService)))) = 1
   \<and> fst (getCachedConfig ''squat'' serverErrorService) = None
   \<and> isConnected (networkStatus serverErrorService)
   \<and> replyStatus (exchanges serverErrorService 0) = Some 500
   \<and> fst (getExerciseConfig ''squat'' serverErrorService) = Inr (getFallbackExerciseConfig ''squat'')
   \<and> map_of (configCache (snd (getExerciseConfig ''squat'' serverErrorService))) ''squat'' = None"
proof -
  let ?w' = "configService\<lparr>netCalls := 1, clock := 20,
          trace := [NetworkCall ''GET'' ''http://10.0.2.2:8000/api/exercise-config/squat''],
          configCache := [(''squat'', \<lparr>cachedData = squatConfig, cachedAt = 20, expiresAt = 1800020\<rparr>)]\<rparr>"
  let ?e' = "serverErrorService\<lparr>netCalls := 1, clock := 20,
          trace := [NetworkCall ''GET'' ''http://10.0.2.2:8000/api/exercise-config/squat'']\<rparr>"
  have h1: "\<not> noBaseUrl configService"
    by (simp add: noBaseUrl_def configService_def readyService_def freshService_def)
  have h2: "fst (getCachedConfig ''squat'' configService) = None"
    by (simp add: getCachedConfig_def configService_def readyService_def freshService_def)
  have h3: "isConnected (networkStatus configService)"
    by (simp add: configService_def readyService_def freshService_def)
  have reply: "netCalls configService \<le> 0 \<and> 0 < netCalls ?w'
      \<and> outcome (exchanges configService 0)
          = Replied 200 ''OK'' (Valid (JObj [(''exercise_type'', JStr ''squat'')]) squatConfig)
      \<and> responseOk 200"
    by (simp add: configService_def readyService_def freshService_def responseOk_def)
  note fetched = getExerciseConfig_caches_fetched [OF h1 h2 h3 config_run,
      THEN conjunct2, THEN conjunct2, THEN conjunct1, THEN spec, THEN spec, THEN spec, THEN spec,
      THEN spec, THEN mp, OF reply]
  then have "\<forall>t. clock ?w' \<le> t \<and> t \<le> clock ?w' + CACHE_DURATION \<longrightarrow>
          getExerciseConfig ''squat'' (?w'\<lparr>clock := t\<rparr>) = (Inr (JObj squatConfig), ?w'\<lparr>clock := t\<rparr>)"
    by simp
  then have "getExerciseConfig ''squat'' (?w'\<lparr>clock := 20\<rparr>) = (Inr (JObj squatConfig), ?w'\<lparr>clock := 20\<rparr>)"
    by (simp add: CACHE_DURATION_def)
  then have again: "getExerciseConfig ''squat'' ?w' = (Inr (JObj squatConfig), ?w')"
    by (simp add: configService_def readyService_def freshService_def)
  have st: "replyStatus (exchanges configService 0) = Some 200"
    by (simp add: replyStatus_def configService_def)
  have e1: "\<not> noBaseUrl serverErrorService"
    by (simp add: noBaseUrl_def serverErrorService_def readyService_def freshService_def)
  have e2: "fst (getCachedConfig ''squat'' serverErrorService) = None"
    by (simp add: getCachedConfig_def serverErrorService_def readyService_def freshService_def)
  have e3: "isConnected (networkStatus serverErrorService)"
    by (simp add: serverErrorService_def readyService_def freshService_def)
  have erun: "getExerciseConfig ''squat'' serverErrorService
      = (Inr (getFallbackExerciseConfig ''squat''), ?e')"
    using server_error_run [where n = 0 and t = 0 and tr = "[]"]
    by (simp add: serverErrorService_def readyService_def freshService_def)
  have ereply: "netCalls serverErrorService \<le> 0 \<and> 0 < netCalls ?e'
      \<and> replyStatus (exchanges serverErrorService 0) = Some 500 \<and> 500 \<in> {401, 403, 404, 500 :: nat}"
    by (simp add: serverErrorService_def readyService_def freshService_def replyStatus_def replyWith_def)
  note fallback = getExerciseConfig_caches_fetched [OF e1 e2 e3 erun,
      THEN conjunct2, THEN conjunct1, THEN spec, THEN spec, THEN mp, OF ereply]
  have "map_of (configCache ?e') ''squat'' = None"
    using fallback by simp
  then show ?thesis using h2 h3 again st e2 e3 ereply
    by (simp add: config_run erun)
qed


end
